theory Spec2Isabelle
  imports Complex_Main "HOL-Library.Word"
begin

section \<open>JavaScript values\<close>

text \<open>
  The bridge server (\<^verbatim>\<open>src/server.js\<close>) receives JSON frames over a WebSocket, talks to
  two HTTP backends through axios and answers with JSON messages. The values it handles
  are the values \<^verbatim>\<open>JSON.parse\<close> produces, \<^verbatim>\<open>undefined\<close> (a property that is absent),
  and Node \<^verbatim>\<open>Buffer\<close>s (binary HTTP bodies, never part of a request). Numbers are the
  finite doubles, taken as the rationals they denote, and the two infinities, which an
  overflowing literal such as \<^verbatim>\<open>1e400\<close> parses to; strings are their UTF-8 bytes; an
  object is the list of its properties in the order the engine enumerates them, each key
  once. No parsed value is callable.
\<close>

type_synonym byte = "8 word"

datatype jsval =
    Undefined
  | Null
  | Bool bool
  | Num rat
  | PosInfinity
  | NegInfinity
  | Str string
  | Arr "jsval list"
  | Obj "(string \<times> jsval) list"
  | Buf "byte list"

text \<open>ToBoolean, as used by \<^verbatim>\<open>!x\<close>, \<^verbatim>\<open>if (x)\<close>, \<^verbatim>\<open>x || y\<close> and \<^verbatim>\<open>x && y\<close>.\<close>

fun truthy :: "jsval \<Rightarrow> bool" where
  "truthy Undefined = False"
| "truthy Null = False"
| "truthy (Bool b) = b"
| "truthy (Num n) = (n \<noteq> 0)"
| "truthy PosInfinity = True"
| "truthy NegInfinity = True"
| "truthy (Str s) = (s \<noteq> [])"
| "truthy (Arr xs) = True"
| "truthy (Obj kvs) = True"
| "truthy (Buf bs) = True"

definition js_or :: "jsval \<Rightarrow> jsval \<Rightarrow> jsval" where
  "js_or a b = (if truthy a then a else b)"

fun nullish :: "jsval \<Rightarrow> bool" where
  "nullish Undefined = True"
| "nullish Null = True"
| "nullish v = False"

text \<open>
  What a failed operation throws. A \<^verbatim>\<open>TypeError\<close> records the faulty operation: reading
  a property of \<^verbatim>\<open>null\<close> or \<^verbatim>\<open>undefined\<close>, destructuring \<^verbatim>\<open>request.data\<close> when it is
  \<^verbatim>\<open>null\<close> or \<^verbatim>\<open>undefined\<close> (with the first property of the pattern), calling a method
  the value does not have (with the expression called), \<^verbatim>\<open>Object.assign\<close> to a target
  that is no object, \<^verbatim>\<open>Buffer.from\<close> of a value it does not accept, converting to a
  string or a number an object that has no callable \<^verbatim>\<open>toString\<close>. The wording of the
  message belongs to the JavaScript engine and is a parameter of the model.
\<close>

datatype fault =
    ReadOfNullish jsval string
  | Destructure jsval string
  | NotAFunction jsval string
  | NotAnObject jsval
  | BadBufferArgument jsval
  | NotPrimitive jsval

record response =
  resp_status :: nat
  resp_statusText :: string
  resp_headers :: "(string \<times> string) list"
  resp_data :: jsval

record http_failure =
  fail_message :: string
  fail_response :: "response option"

text \<open>The numbers a conversion can give.\<close>

datatype jsnumber = Finite rat | PlusInf | MinusInf | NaN

datatype js_error =
    SyntaxError string
  | TypeError fault
  | AxiosError http_failure
  | IOError string

text \<open>
  Reading a property. \<open>own v k\<close> is \<^verbatim>\<open>v.k\<close> for a value that is neither \<^verbatim>\<open>null\<close> nor
  \<^verbatim>\<open>undefined\<close>: an object yields the property or \<^verbatim>\<open>undefined\<close>; a primitive or an array
  yields \<^verbatim>\<open>undefined\<close> for every property name the server reads (none of them is
  inherited). \<open>getp\<close> is the read on any value, which throws on \<^verbatim>\<open>null\<close> and \<^verbatim>\<open>undefined\<close>.
\<close>

fun own :: "jsval \<Rightarrow> string \<Rightarrow> jsval" where
  "own (Obj kvs) k = (case map_of kvs k of None \<Rightarrow> Undefined | Some v \<Rightarrow> v)"
| "own v k = Undefined"

definition getp :: "jsval \<Rightarrow> string \<Rightarrow> js_error + jsval" where
  "getp v k = (if nullish v then Inl (TypeError (ReadOfNullish v k)) else Inr (own v k))"

section \<open>Base64, as \<^verbatim>\<open>Buffer\<close> encodes and decodes it\<close>

definition b64_alphabet :: string where
  "b64_alphabet = ''ABCDEFGHIJKLMNOPQRSTUVWXYZabcdefghijklmnopqrstuvwxyz0123456789+/''"

definition b64_char :: "nat \<Rightarrow> char" where
  "b64_char i = b64_alphabet ! (i mod 64)"

fun index_of :: "'a list \<Rightarrow> 'a \<Rightarrow> nat" where
  "index_of [] c = 0"
| "index_of (x # xs) c = (if x = c then 0 else Suc (index_of xs c))"

definition b64_index :: "char \<Rightarrow> nat" where
  "b64_index c = index_of b64_alphabet c"

text \<open>\<^verbatim>\<open>buffer.toString('base64')\<close>: three bytes give four characters, the tail is padded.\<close>

fun b64encode :: "byte list \<Rightarrow> string" where
  "b64encode [] = []"
| "b64encode [a] =
     [b64_char (unat a div 4), b64_char ((unat a mod 4) * 16), CHR ''='', CHR ''='']"
| "b64encode [a, b] =
     [b64_char (unat a div 4), b64_char ((unat a mod 4) * 16 + unat b div 16),
      b64_char ((unat b mod 16) * 4), CHR ''='']"
| "b64encode (a # b # c # rest) =
     [b64_char (unat a div 4), b64_char ((unat a mod 4) * 16 + unat b div 16),
      b64_char ((unat b mod 16) * 4 + unat c div 64), b64_char (unat c mod 64)]
     @ b64encode rest"

text \<open>The decoder on padded four-character groups (RFC 4648).\<close>

fun b64decode :: "string \<Rightarrow> byte list" where
  "b64decode (p # q # r # s # rest) =
     (if r = CHR ''='' then [of_nat (b64_index p * 4 + b64_index q div 16)]
      else if s = CHR ''='' then
        [of_nat (b64_index p * 4 + b64_index q div 16),
         of_nat ((b64_index q mod 16) * 16 + b64_index r div 4)]
      else
        [of_nat (b64_index p * 4 + b64_index q div 16),
         of_nat ((b64_index q mod 16) * 16 + b64_index r div 4),
         of_nat ((b64_index r mod 4) * 64 + b64_index s)] @ b64decode rest)"
| "b64decode s = []"

text \<open>A string is canonical Base64 when it is the encoding of what it decodes to.\<close>

definition canonical_b64 :: "string \<Rightarrow> bool" where
  "canonical_b64 s = (b64encode (b64decode s) = s)"

text \<open>
  \<^verbatim>\<open>str.split(',')\<close>: the pieces between the separators, at least one piece.
\<close>

fun split_on :: "char \<Rightarrow> string \<Rightarrow> string list" where
  "split_on sep [] = [[]]"
| "split_on sep (c # cs) =
     (if c = sep then [] # split_on sep cs
      else (case split_on sep cs of [] \<Rightarrow> [[c]] | p # ps \<Rightarrow> (c # p) # ps))"

text \<open>\<^verbatim>\<open>xs[i]\<close> on an array: \<^verbatim>\<open>undefined\<close> past the end.\<close>

definition at_index :: "string list \<Rightarrow> nat \<Rightarrow> jsval" where
  "at_index xs i = (if i < length xs then Str (xs ! i) else Undefined)"

text \<open>\<^verbatim>\<open>s.includes(t)\<close> on strings.\<close>

fun includes_str :: "string \<Rightarrow> string \<Rightarrow> bool" where
  "includes_str [] t = (t = [])"
| "includes_str (c # cs) t = (take (length t) (c # cs) = t \<or> includes_str cs t)"

section \<open>Messages, effects and the world outside\<close>

text \<open>
  An outbound message is the object handed to \<^verbatim>\<open>JSON.stringify\<close>; a field that is
  \<open>Undefined\<close> is a property that is absent or \<^verbatim>\<open>undefined\<close>, which \<^verbatim>\<open>JSON.stringify\<close>
  leaves out of the text that is sent.
\<close>

record message =
  mtype :: string
  mdata :: jsval
  merror :: jsval
  mdetails :: jsval
  requestId :: jsval

definition reply :: "string \<Rightarrow> jsval \<Rightarrow> jsval \<Rightarrow> message" where
  "reply t d rid = \<lparr>mtype = t, mdata = d, merror = Undefined, mdetails = Undefined, requestId = rid\<rparr>"

definition error_reply :: "string \<Rightarrow> jsval \<Rightarrow> jsval \<Rightarrow> message" where
  "error_reply text details rid =
     \<lparr>mtype = ''error'', mdata = Undefined, merror = Str text, mdetails = details, requestId = rid\<rparr>"

record axios_config =
  cfg_method :: string
  cfg_url :: string
  cfg_params :: jsval
  cfg_data :: jsval
  cfg_timeout :: "nat option"
  cfg_responseType :: "string option"

text \<open>
  Everything the server does to the outside, in the order it does it. \<open>Send c m\<close> is
  \<^verbatim>\<open>ws.send(JSON.stringify(m))\<close> on the socket of client \<open>c\<close>, which is taken to accept the
  message (sending does not throw). An \<open>Http\<close> effect is an axios call together with its
  outcome, a \<open>WriteFile\<close> is \<^verbatim>\<open>fs.writeFile\<close> with its outcome (\<open>None\<close> is success,
  \<open>Some text\<close> the failure's message), \<open>CloseConn\<close> is \<^verbatim>\<open>client.close()\<close>, \<open>StopWss\<close> and
  \<open>StopHttp\<close> are \<^verbatim>\<open>wss.close()\<close> and \<^verbatim>\<open>server.close()\<close>, \<open>RemoveDir\<close> is \<^verbatim>\<open>fs.rm\<close> with
  its outcome, \<open>Exit\<close> is \<^verbatim>\<open>process.exit\<close>. \<open>Uncaught e\<close> is an exception thrown in a
  timer callback, where nothing catches it: Node reports it and the process dies. Console
  output is left out.
\<close>

datatype effect =
    Send string message
  | Uncaught js_error
  | Http axios_config "http_failure + response"
  | WriteFile string "byte list" "string option"
  | CloseConn string
  | StopWss
  | StopHttp
  | RemoveDir string "string option"
  | Exit int

text \<open>
  The timers the handlers start: the training simulation's \<^verbatim>\<open>setInterval\<close> with the
  variables its closure holds, and the upload's \<^verbatim>\<open>setTimeout\<close>.
\<close>

record job =
  job_client :: string
  job_modelId :: string
  job_modelName :: jsval
  job_epochs :: jsval
  job_currentEpoch :: int

datatype timer =
    Interval nat job
  | Timeout nat string jsval

text \<open>
  The world: configuration, the answers of the backends and of the file system, the
  generators (\<^verbatim>\<open>uuidv4\<close>, the clock, \<^verbatim>\<open>Math.random\<close>), and the parts of the JavaScript engine
  and of Node that the model does not compute itself (conversions of values that are not
  strings, floating-point arithmetic, \<^verbatim>\<open>path.join\<close>, lenient Base64). No theorem assumes
  anything about them. \<open>backend w cfg\<close> is the outcome of the axios call with configuration
  \<open>cfg\<close> while one message is handled; \<open>uuidv4 w k\<close> is the result of the \<open>k\<close>-th call
  of \<^verbatim>\<open>uuidv4()\<close> made for that message; \<open>num_to_string\<close> and \<open>buf_to_string\<close> print a
  number and a \<^verbatim>\<open>Buffer\<close>; \<open>str_to_number\<close> reads a string as a number; \<open>float_add10 w c\<close>
  is the double \<^verbatim>\<open>c + 10\<close> where the sum is not exact; \<open>percent w c e\<close> is the
  floating-point value \<^verbatim>\<open>(c / e) * 100\<close>, as \<^verbatim>\<open>JSON.stringify\<close> writes it;
  \<open>mock_duration\<close> is the value \<^verbatim>\<open>Math.random() * 300\<close>; \<open>object_assign\<close> is
  \<^verbatim>\<open>Object.assign\<close> where the model does not compute it, which can throw.
\<close>

record world =
  VOICEVOX_URL :: string
  RVC_URL :: string
  dirname :: string
  backend :: "axios_config \<Rightarrow> http_failure + response"
  uuidv4 :: "nat \<Rightarrow> string"
  date_now :: rat
  date_iso :: string
  mock_duration :: jsval
  writeFile :: "string \<Rightarrow> byte list \<Rightarrow> string option"
  rm_uploads :: "string option"
  num_to_string :: "rat \<Rightarrow> string"
  buf_to_string :: "byte list \<Rightarrow> string"
  str_to_number :: "string \<Rightarrow> jsnumber"
  float_add10 :: "int \<Rightarrow> int"
  toUpperCase :: "string \<Rightarrow> string"
  type_error_message :: "fault \<Rightarrow> string"
  path_join :: "string list \<Rightarrow> string"
  buffer_from :: "jsval \<Rightarrow> js_error + byte list"
  base64_lenient :: "string \<Rightarrow> byte list"
  object_assign :: "jsval \<Rightarrow> jsval \<Rightarrow> js_error + jsval"
  percent :: "int \<Rightarrow> jsnumber \<Rightarrow> jsval"

text \<open>\<^verbatim>\<open>error.message\<close>.\<close>

fun error_message :: "world \<Rightarrow> js_error \<Rightarrow> string" where
  "error_message w (SyntaxError m) = m"
| "error_message w (TypeError f) = type_error_message w f"
| "error_message w (AxiosError h) = fail_message h"
| "error_message w (IOError m) = m"

text \<open>
  ToString, as a template literal applies it to a value. A plain object prints as
  \<^verbatim>\<open>[object Object]\<close>; an object with a property \<^verbatim>\<open>toString\<close> of its own, which is never
  callable, cannot be converted and throws. An array prints its elements joined by commas,
  \<^verbatim>\<open>null\<close> and \<^verbatim>\<open>undefined\<close> as nothing, and throws when an element does.
\<close>

fun join_comma :: "string list \<Rightarrow> string" where
  "join_comma [] = []"
| "join_comma [s] = s"
| "join_comma (s # t # ss) = s @ '','' @ join_comma (t # ss)"

fun to_str :: "world \<Rightarrow> jsval \<Rightarrow> js_error + string"
  and elems_str :: "world \<Rightarrow> jsval list \<Rightarrow> js_error + string list" where
  "to_str w Undefined = Inr ''undefined''"
| "to_str w Null = Inr ''null''"
| "to_str w (Bool b) = Inr (if b then ''true'' else ''false'')"
| "to_str w (Num r) = Inr (num_to_string w r)"
| "to_str w PosInfinity = Inr ''Infinity''"
| "to_str w NegInfinity = Inr ''-Infinity''"
| "to_str w (Str s) = Inr s"
| "to_str w (Arr xs) =
     (case elems_str w xs of Inl e \<Rightarrow> Inl e | Inr ss \<Rightarrow> Inr (join_comma ss))"
| "to_str w (Obj kvs) =
     (if map_of kvs ''toString'' = None then Inr ''[object Object]''
      else Inl (TypeError (NotPrimitive (Obj kvs))))"
| "to_str w (Buf bs) = Inr (buf_to_string w bs)"
| "elems_str w [] = Inr []"
| "elems_str w (x # xs) =
     (case (if nullish x then Inr [] else to_str w x) of
        Inl e \<Rightarrow> Inl e
      | Inr s \<Rightarrow> (case elems_str w xs of Inl e \<Rightarrow> Inl e | Inr ss \<Rightarrow> Inr (s # ss)))"

definition template :: "world \<Rightarrow> jsval \<Rightarrow> js_error + string" where
  "template w v = to_str w v"

text \<open>
  ToNumber, as \<^verbatim>\<open>/\<close> and \<^verbatim>\<open>>=\<close> apply it: an array or an object is first converted
  to a string, which can throw.
\<close>

fun to_number :: "world \<Rightarrow> jsval \<Rightarrow> js_error + jsnumber" where
  "to_number w Undefined = Inr NaN"
| "to_number w Null = Inr (Finite 0)"
| "to_number w (Bool b) = Inr (Finite (if b then 1 else 0))"
| "to_number w (Num r) = Inr (Finite r)"
| "to_number w PosInfinity = Inr PlusInf"
| "to_number w NegInfinity = Inr MinusInf"
| "to_number w (Str s) = Inr (str_to_number w s)"
| "to_number w (Obj kvs) =
     (case to_str w (Obj kvs) of Inl e \<Rightarrow> Inl e | Inr s \<Rightarrow> Inr NaN)"
| "to_number w v =
     (case to_str w v of Inl e \<Rightarrow> Inl e | Inr s \<Rightarrow> Inr (str_to_number w s))"

text \<open>
  What a piece of handler code leaves behind: its effects, the timers it started, and the
  exception it threw, if it did.
\<close>

record outcome =
  effects :: "effect list"
  timers :: "timer list"
  thrown :: "js_error option"

definition finish :: "effect list \<Rightarrow> timer list \<Rightarrow> outcome" where
  "finish es ts = \<lparr>effects = es, timers = ts, thrown = None\<rparr>"

definition raise :: "effect list \<Rightarrow> js_error \<Rightarrow> outcome" where
  "raise es e = \<lparr>effects = es, timers = [], thrown = Some e\<rparr>"

text \<open>\<^verbatim>\<open>try { t } catch (error) { h error }\<close>.\<close>

definition try_catch :: "outcome \<Rightarrow> (js_error \<Rightarrow> outcome) \<Rightarrow> outcome" where
  "try_catch t h =
     (case thrown t of
        None \<Rightarrow> t
      | Some e \<Rightarrow>
          \<lparr>effects = effects t @ effects (h e), timers = timers t @ timers (h e),
           thrown = thrown (h e)\<rparr>)"

definition sends :: "effect list \<Rightarrow> message list" where
  "sends es = concat (map (\<lambda>e. case e of Send c m \<Rightarrow> [m] | _ \<Rightarrow> []) es)"

definition http_calls :: "effect list \<Rightarrow> (axios_config \<times> (http_failure + response)) list" where
  "http_calls es = concat (map (\<lambda>e. case e of Http c r \<Rightarrow> [(c, r)] | _ \<Rightarrow> []) es)"

section \<open>The message handler\<close>

subsection \<open>Texts of the server, as UTF-8\<close>

definition upload_error_prefix :: string where
  "upload_error_prefix =
     [CHR 0xE3, CHR 0x83, CHR 0x95, CHR 0xE3, CHR 0x82, CHR 0xA1, CHR 0xE3, CHR 0x82, CHR 0xA4,
      CHR 0xE3, CHR 0x83, CHR 0xAB, CHR 0xE3, CHR 0x82, CHR 0xA2, CHR 0xE3, CHR 0x83, CHR 0x83,
      CHR 0xE3, CHR 0x83, CHR 0x97, CHR 0xE3, CHR 0x83, CHR 0xAD, CHR 0xE3, CHR 0x83, CHR 0xBC,
      CHR 0xE3, CHR 0x83, CHR 0x89, CHR 0xE3, CHR 0x82, CHR 0xA8, CHR 0xE3, CHR 0x83, CHR 0xA9,
      CHR 0xE3, CHR 0x83, CHR 0xBC] @ '': ''"

definition training_error_prefix :: string where
  "training_error_prefix =
     [CHR 0xE3, CHR 0x83, CHR 0x88, CHR 0xE3, CHR 0x83, CHR 0xAC, CHR 0xE3, CHR 0x83, CHR 0xBC,
      CHR 0xE3, CHR 0x83, CHR 0x8B, CHR 0xE3, CHR 0x83, CHR 0xB3, CHR 0xE3, CHR 0x82, CHR 0xB0,
      CHR 0xE9, CHR 0x96, CHR 0x8B, CHR 0xE5, CHR 0xA7, CHR 0x8B, CHR 0xE3, CHR 0x82, CHR 0xA8,
      CHR 0xE3, CHR 0x83, CHR 0xA9, CHR 0xE3, CHR 0x83, CHR 0xBC] @ '': ''"

definition conversion_error_prefix :: string where
  "conversion_error_prefix =
     [CHR 0xE9, CHR 0x9F, CHR 0xB3, CHR 0xE5, CHR 0xA3, CHR 0xB0, CHR 0xE5, CHR 0xA4, CHR 0x89,
      CHR 0xE6, CHR 0x8F, CHR 0x9B, CHR 0xE3, CHR 0x82, CHR 0xA8, CHR 0xE3, CHR 0x83, CHR 0xA9,
      CHR 0xE3, CHR 0x83, CHR 0xBC] @ '': ''"

definition no_endpoint_text :: string where
  "no_endpoint_text =
     [CHR 0xE3, CHR 0x82, CHR 0xA8, CHR 0xE3, CHR 0x83, CHR 0xB3, CHR 0xE3, CHR 0x83, CHR 0x89,
      CHR 0xE3, CHR 0x83, CHR 0x9D, CHR 0xE3, CHR 0x82, CHR 0xA4, CHR 0xE3, CHR 0x83, CHR 0xB3,
      CHR 0xE3, CHR 0x83, CHR 0x88, CHR 0xE3, CHR 0x81, CHR 0x8C, CHR 0xE6, CHR 0x8C, CHR 0x87,
      CHR 0xE5, CHR 0xAE, CHR 0x9A, CHR 0xE3, CHR 0x81, CHR 0x95, CHR 0xE3, CHR 0x82, CHR 0x8C,
      CHR 0xE3, CHR 0x81, CHR 0xA6, CHR 0xE3, CHR 0x81, CHR 0x84, CHR 0xE3, CHR 0x81, CHR 0xBE,
      CHR 0xE3, CHR 0x81, CHR 0x9B, CHR 0xE3, CHR 0x82, CHR 0x93]"

definition api_error_prefix :: string where
  "api_error_prefix =
     ''VOICEVOX API'' @ [CHR 0xE3, CHR 0x82, CHR 0xA8, CHR 0xE3, CHR 0x83, CHR 0xA9, CHR 0xE3,
      CHR 0x83, CHR 0xBC] @ '': ''"

definition processing_error_prefix :: string where
  "processing_error_prefix =
     [CHR 0xE3, CHR 0x83, CHR 0xA1, CHR 0xE3, CHR 0x83, CHR 0x83, CHR 0xE3, CHR 0x82, CHR 0xBB,
      CHR 0xE3, CHR 0x83, CHR 0xBC, CHR 0xE3, CHR 0x82, CHR 0xB8, CHR 0xE5, CHR 0x87, CHR 0xA6,
      CHR 0xE7, CHR 0x90, CHR 0x86, CHR 0xE3, CHR 0x82, CHR 0xA8, CHR 0xE3, CHR 0x83, CHR 0xA9,
      CHR 0xE3, CHR 0x83, CHR 0xBC] @ '': ''"

definition shutdown_text :: string where
  "shutdown_text =
     [CHR 0xE3, CHR 0x82, CHR 0xB5, CHR 0xE3, CHR 0x83, CHR 0xBC, CHR 0xE3, CHR 0x83, CHR 0x90,
      CHR 0xE3, CHR 0x83, CHR 0xBC, CHR 0xE3, CHR 0x81, CHR 0x8C, CHR 0xE3, CHR 0x82, CHR 0xB7,
      CHR 0xE3, CHR 0x83, CHR 0xA3, CHR 0xE3, CHR 0x83, CHR 0x83, CHR 0xE3, CHR 0x83, CHR 0x88,
      CHR 0xE3, CHR 0x83, CHR 0x80, CHR 0xE3, CHR 0x82, CHR 0xA6, CHR 0xE3, CHR 0x83, CHR 0xB3,
      CHR 0xE3, CHR 0x81, CHR 0x97, CHR 0xE3, CHR 0x81, CHR 0xA6, CHR 0xE3, CHR 0x81, CHR 0x84,
      CHR 0xE3, CHR 0x81, CHR 0xBE, CHR 0xE3, CHR 0x81, CHR 0x99]"

definition connected_text :: string where
  "connected_text =
     [CHR 0xE3, CHR 0x83, CHR 0xAD, CHR 0xE3, CHR 0x83, CHR 0xBC, CHR 0xE3, CHR 0x82, CHR 0xAB,
      CHR 0xE3, CHR 0x83, CHR 0xAB, CHR 0xE3, CHR 0x83, CHR 0x96, CHR 0xE3, CHR 0x83, CHR 0xAA,
      CHR 0xE3, CHR 0x83, CHR 0x83, CHR 0xE3, CHR 0x82, CHR 0xB8, CHR 0xE3, CHR 0x82, CHR 0xB5,
      CHR 0xE3, CHR 0x83, CHR 0xBC, CHR 0xE3, CHR 0x83, CHR 0x90, CHR 0xE3, CHR 0x83, CHR 0xBC,
      CHR 0xE3, CHR 0x81, CHR 0xAB, CHR 0xE6, CHR 0x8E, CHR 0xA5, CHR 0xE7, CHR 0xB6, CHR 0x9A,
      CHR 0xE3, CHR 0x81, CHR 0x97, CHR 0xE3, CHR 0x81, CHR 0xBE, CHR 0xE3, CHR 0x81, CHR 0x97,
      CHR 0xE3, CHR 0x81, CHR 0x9F]"

definition normal_style :: string where
  "normal_style =
     [CHR 0xE3, CHR 0x83, CHR 0x8E, CHR 0xE3, CHR 0x83, CHR 0xBC, CHR 0xE3, CHR 0x83, CHR 0x9E,
      CHR 0xE3, CHR 0x83, CHR 0xAB]"

subsection \<open>\<^verbatim>\<open>ping\<close>\<close>

definition handle_ping :: "string \<Rightarrow> world \<Rightarrow> jsval \<Rightarrow> outcome" where
  "handle_ping cid w request =
     finish [Send cid (reply ''pong'' (Obj [(''timestamp'', Num (date_now w))])
                        (own request ''requestId''))] []"

subsection \<open>\<^verbatim>\<open>voicevox-speakers\<close>\<close>

definition mock_speaker :: "rat \<Rightarrow> string \<Rightarrow> string \<Rightarrow> jsval" where
  "mock_speaker n name uuid =
     Obj [(''speaker_id'', Num n), (''name'', Str name), (''speaker_uuid'', Str uuid),
          (''styles'', Arr [Obj [(''id'', Num n), (''name'', Str normal_style)]])]"

definition mock_speakers :: jsval where
  "mock_speakers =
     Arr [mock_speaker 0 ''Default'' ''default-uuid'',
          mock_speaker 1 ''Female'' ''female-uuid'',
          mock_speaker 2 ''Male'' ''male-uuid'']"

definition axios_get :: "string \<Rightarrow> nat option \<Rightarrow> axios_config" where
  "axios_get url t =
     \<lparr>cfg_method = ''GET'', cfg_url = url, cfg_params = Undefined, cfg_data = Undefined,
      cfg_timeout = t, cfg_responseType = None\<rparr>"

definition axios_post :: "string \<Rightarrow> jsval \<Rightarrow> jsval \<Rightarrow> string option \<Rightarrow> axios_config" where
  "axios_post url body ps rt =
     \<lparr>cfg_method = ''POST'', cfg_url = url, cfg_params = ps, cfg_data = body,
      cfg_timeout = None, cfg_responseType = rt\<rparr>"

definition speakers_config :: "world \<Rightarrow> axios_config" where
  "speakers_config w = axios_get (VOICEVOX_URL w @ ''/speakers'') None"

definition handle_speakers :: "string \<Rightarrow> world \<Rightarrow> jsval \<Rightarrow> outcome" where
  "handle_speakers cid w request =
     (let cfg = speakers_config w in
      try_catch
        (case backend w cfg of
           Inl f \<Rightarrow> raise [Http cfg (Inl f)] (AxiosError f)
         | Inr r \<Rightarrow>
             finish [Http cfg (Inr r),
                     Send cid (reply ''voicevox-speakers-response'' (resp_data r)
                                (own request ''requestId''))] [])
        (\<lambda>error.
           finish [Send cid (reply ''voicevox-speakers-response'' mock_speakers
                              (own request ''requestId''))] []))"

subsection \<open>\<^verbatim>\<open>voicevox-synthesis\<close>\<close>

fun set_prop :: "string \<Rightarrow> jsval \<Rightarrow> (string \<times> jsval) list \<Rightarrow> (string \<times> jsval) list" where
  "set_prop k v [] = [(k, v)]"
| "set_prop k v ((k', v') # kvs) =
     (if k = k' then (k, v) # kvs else (k', v') # set_prop k v kvs)"

text \<open>
  \<^verbatim>\<open>if (request.data.params) Object.assign(audioQuery, request.data.params)\<close>, giving the
  query object afterwards. A target that is \<^verbatim>\<open>null\<close> or \<^verbatim>\<open>undefined\<close> throws. An object
  merged with an object whose keys do not begin with a digit and are not \<^verbatim>\<open>__proto__\<close>
  is computed here: a key that is there is overwritten in place, a new one is added at
  the end. Every other combination is the engine's, and can throw (a string target has
  read-only indices).
\<close>

definition plain_key :: "string \<Rightarrow> bool" where
  "plain_key k =
     (k \<noteq> ''__proto__'' \<and> (case k of [] \<Rightarrow> True | c # cs \<Rightarrow> c \<notin> set ''0123456789''))"

definition merge_params :: "world \<Rightarrow> jsval \<Rightarrow> jsval \<Rightarrow> js_error + jsval" where
  "merge_params w audioQuery params =
     (if \<not> truthy params then Inr audioQuery
      else if nullish audioQuery then Inl (TypeError (NotAnObject audioQuery))
      else (case (audioQuery, params) of
              (Obj kvs, Obj ps) \<Rightarrow>
                if list_all plain_key (map fst ps)
                then Inr (Obj (foldl (\<lambda>acc (k, v). set_prop k v acc) kvs ps))
                else object_assign w audioQuery params
            | _ \<Rightarrow> object_assign w audioQuery params))"

text \<open>\<^verbatim>\<open>Buffer.from(x)\<close> of a response body.\<close>

fun buffer_of :: "world \<Rightarrow> jsval \<Rightarrow> js_error + byte list" where
  "buffer_of w (Buf bs) = Inr bs"
| "buffer_of w v = buffer_from w v"

definition mockWav :: string where
  "mockWav = ''UklGRiQAAABXQVZFZm10IBAAAAABAAEAQB8AAAB9AAACABAAZGF0YQAAAAA=''"

text \<open>The two axios calls of a synthesis and the two replies.\<close>

definition speaker_of :: "jsval \<Rightarrow> jsval" where
  "speaker_of d = js_or (own d ''speaker_id'') (Num 3)"

definition query_config :: "world \<Rightarrow> jsval \<Rightarrow> axios_config" where
  "query_config w d =
     axios_post (VOICEVOX_URL w @ ''/audio_query'') Null
       (Obj [(''text'', own d ''text''), (''speaker'', speaker_of d)]) None"

definition synthesis_config :: "world \<Rightarrow> jsval \<Rightarrow> jsval \<Rightarrow> axios_config" where
  "synthesis_config w d audioQuery =
     axios_post (VOICEVOX_URL w @ ''/synthesis'') audioQuery
       (Obj [(''speaker'', speaker_of d)]) (Some ''arraybuffer'')"

definition synthesis_reply :: "jsval \<Rightarrow> byte list \<Rightarrow> message" where
  "synthesis_reply request bytes =
     reply ''voicevox-synthesis-response''
       (Obj [(''audio'', Str (''data:audio/wav;base64,'' @ b64encode bytes)),
             (''text'', own (own request ''data'') ''text''),
             (''speaker_id'', own (own request ''data'') ''speaker_id'')])
       (own request ''requestId'')"

definition mock_synthesis_reply :: "jsval \<Rightarrow> message" where
  "mock_synthesis_reply request =
     reply ''voicevox-synthesis-response''
       (Obj [(''audio'', Str (''data:audio/wav;base64,'' @ mockWav)),
             (''text'', own (own request ''data'') ''text''),
             (''speaker_id'', own (own request ''data'') ''speaker_id''),
             (''mock'', Bool True)])
       (own request ''requestId'')"

definition synthesis_try :: "string \<Rightarrow> world \<Rightarrow> jsval \<Rightarrow> outcome" where
  "synthesis_try cid w request =
     (case getp (own request ''data'') ''text'' of
        Inl e \<Rightarrow> raise [] e
      | Inr text \<Rightarrow>
          let d = own request ''data''; qcfg = query_config w d in
          (case backend w qcfg of
             Inl f \<Rightarrow> raise [Http qcfg (Inl f)] (AxiosError f)
           | Inr q \<Rightarrow>
               (case merge_params w (resp_data q) (own d ''params'') of
                  Inl e \<Rightarrow> raise [Http qcfg (Inr q)] e
                | Inr audioQuery \<Rightarrow>
                    let scfg = synthesis_config w d audioQuery in
                    (case backend w scfg of
                       Inl f \<Rightarrow> raise [Http qcfg (Inr q), Http scfg (Inl f)] (AxiosError f)
                     | Inr s \<Rightarrow>
                         (case buffer_of w (resp_data s) of
                            Inl e \<Rightarrow> raise [Http qcfg (Inr q), Http scfg (Inr s)] e
                          | Inr bytes \<Rightarrow>
                              finish [Http qcfg (Inr q), Http scfg (Inr s),
                                      Send cid (synthesis_reply request bytes)] [])))))"

definition synthesis_catch :: "string \<Rightarrow> world \<Rightarrow> jsval \<Rightarrow> outcome" where
  "synthesis_catch cid w request =
     (case getp (own request ''data'') ''text'' of
        Inl e \<Rightarrow> raise [] e
      | Inr text \<Rightarrow> finish [Send cid (mock_synthesis_reply request)] [])"

definition handle_synthesis :: "string \<Rightarrow> world \<Rightarrow> jsval \<Rightarrow> outcome" where
  "handle_synthesis cid w request =
     try_catch (synthesis_try cid w request) (\<lambda>error. synthesis_catch cid w request)"

subsection \<open>\<^verbatim>\<open>rvc-upload-training-data\<close>\<close>

text \<open>
  \<^verbatim>\<open>const { first, ... } = v\<close> throws when \<open>v\<close> is \<^verbatim>\<open>null\<close> or \<^verbatim>\<open>undefined\<close>.
\<close>

definition destructure :: "jsval \<Rightarrow> string \<Rightarrow> js_error option" where
  "destructure v first = (if nullish v then Some (TypeError (Destructure v first)) else None)"

text \<open>\<^verbatim>\<open>fileData.split(',')\<close>: only a string has the method.\<close>

fun split_field :: "jsval \<Rightarrow> js_error + string list" where
  "split_field (Str s) = Inr (split_on CHR '','' s)"
| "split_field Undefined = Inl (TypeError (ReadOfNullish Undefined ''split''))"
| "split_field Null = Inl (TypeError (ReadOfNullish Null ''split''))"
| "split_field v = Inl (TypeError (NotAFunction v ''fileData.split''))"

text \<open>
  \<^verbatim>\<open>Buffer.from(x, 'base64')\<close> for \<open>x\<close> an element of the split: a string is decoded (canonical
  Base64 by the decoder above, anything else by Node's lenient decoder), \<^verbatim>\<open>undefined\<close>
  throws.
\<close>

fun buffer_from_base64 :: "world \<Rightarrow> jsval \<Rightarrow> js_error + byte list" where
  "buffer_from_base64 w (Str s) =
     Inr (if canonical_b64 s then b64decode s else base64_lenient w s)"
| "buffer_from_base64 w v = Inl (TypeError (BadBufferArgument v))"

text \<open>
  The path of the stored file, for the file name as the template literal
  \<^verbatim>\<open>`${uuidv4()}_${fileName}`\<close> has printed it.
\<close>

definition upload_path :: "world \<Rightarrow> string \<Rightarrow> string" where
  "upload_path w name = path_join w [dirname w, ''uploads'', uuidv4 w 0 @ ''_'' @ name]"

definition upload_reply :: "world \<Rightarrow> jsval \<Rightarrow> string \<Rightarrow> message" where
  "upload_reply w request filePath =
     reply ''rvc-upload-response''
       (Obj [(''id'', Str (uuidv4 w 1)),
             (''fileName'', own (own request ''data'') ''fileName''),
             (''filePath'', Str filePath),
             (''fileSize'', own (own request ''data'') ''fileSize''),
             (''status'', Str ''processing'')])
       (own request ''requestId'')"

definition upload_try :: "string \<Rightarrow> world \<Rightarrow> jsval \<Rightarrow> outcome" where
  "upload_try cid w request =
     (let d = own request ''data'' in
      case destructure d ''fileName'' of
        Some e \<Rightarrow> raise [] e
      | None \<Rightarrow>
          (case template w (own d ''fileName'') of
             Inl e \<Rightarrow> raise [] e
           | Inr name \<Rightarrow>
               let filePath = upload_path w name in
               (case split_field (own d ''fileData'') of
                  Inl e \<Rightarrow> raise [] e
                | Inr pieces \<Rightarrow>
                    (case buffer_from_base64 w (at_index pieces 1) of
                       Inl e \<Rightarrow> raise [] e
                     | Inr buffer \<Rightarrow>
                         (case writeFile w filePath buffer of
                            Some m \<Rightarrow> raise [WriteFile filePath buffer (Some m)] (IOError m)
                          | None \<Rightarrow>
                              finish [WriteFile filePath buffer None,
                                      Send cid (upload_reply w request filePath)]
                                     [Timeout 2000 cid (own d ''fileName'')])))))"

definition handle_upload :: "string \<Rightarrow> world \<Rightarrow> jsval \<Rightarrow> outcome" where
  "handle_upload cid w request =
     try_catch (upload_try cid w request)
       (\<lambda>error. finish [Send cid (error_reply (upload_error_prefix @ error_message w error)
                                    Undefined (own request ''requestId''))] [])"

text \<open>The callback of the \<^verbatim>\<open>setTimeout\<close>, when it fires.\<close>

definition fire_timeout :: "world \<Rightarrow> string \<Rightarrow> jsval \<Rightarrow> effect list" where
  "fire_timeout w cid fileName =
     [Send cid (reply ''rvc-processing-complete''
                  (Obj [(''fileName'', fileName), (''status'', Str ''ready''),
                        (''duration'', mock_duration w)])
                  Undefined)]"

subsection \<open>\<^verbatim>\<open>rvc-start-training\<close>\<close>

definition new_job :: "string \<Rightarrow> world \<Rightarrow> jsval \<Rightarrow> job" where
  "new_job cid w d =
     \<lparr>job_client = cid, job_modelId = uuidv4 w 0, job_modelName = own d ''modelName'',
      job_epochs = own d ''epochs'', job_currentEpoch = 0\<rparr>"

definition started_reply :: "world \<Rightarrow> jsval \<Rightarrow> message" where
  "started_reply w request =
     reply ''rvc-training-started''
       (Obj [(''modelId'', Str (uuidv4 w 0)),
             (''modelName'', own (own request ''data'') ''modelName''),
             (''status'', Str ''training''),
             (''totalEpochs'', own (own request ''data'') ''epochs'')])
       (own request ''requestId'')"

definition training_try :: "string \<Rightarrow> world \<Rightarrow> jsval \<Rightarrow> outcome" where
  "training_try cid w request =
     (let d = own request ''data'' in
      case destructure d ''modelName'' of
        Some e \<Rightarrow> raise [] e
      | None \<Rightarrow>
          finish [Send cid (started_reply w request)] [Interval 1000 (new_job cid w d)])"

definition handle_training :: "string \<Rightarrow> world \<Rightarrow> jsval \<Rightarrow> outcome" where
  "handle_training cid w request =
     try_catch (training_try cid w request)
       (\<lambda>error. finish [Send cid (error_reply (training_error_prefix @ error_message w error)
                                    Undefined (own request ''requestId''))] [])"

text \<open>
  \<^verbatim>\<open>currentEpoch += 10\<close>: \<open>currentEpoch\<close> starts at 0 and only grows by this addition, so it
  is an integer; the sum is exact up to \<open>2^53\<close>, beyond that it is the engine's rounded
  sum.
\<close>

definition plus_ten :: "world \<Rightarrow> int \<Rightarrow> int" where
  "plus_ten w c = (if 0 \<le> c \<and> c + 10 \<le> 2 ^ 53 then c + 10 else float_add10 w c)"

text \<open>\<^verbatim>\<open>currentEpoch >= epochs\<close> for the number that \<open>epochs\<close> converts to.\<close>

fun num_ge :: "int \<Rightarrow> jsnumber \<Rightarrow> bool" where
  "num_ge c (Finite e) = (e \<le> of_int c)"
| "num_ge c PlusInf = False"
| "num_ge c MinusInf = True"
| "num_ge c NaN = False"

text \<open>
  The progress push for the new \<open>currentEpoch\<close>; its \<^verbatim>\<open>progress\<close> is
  \<^verbatim>\<open>(currentEpoch / epochs) * 100\<close>, computed from the number that \<open>epochs\<close> converts to.
  When that conversion throws the callback never gets as far as a push (see \<open>tick\<close>
  below, which then builds none), and the field is immaterial.
\<close>

definition progress_message :: "world \<Rightarrow> job \<Rightarrow> int \<Rightarrow> message" where
  "progress_message w j c =
     reply ''rvc-training-progress''
       (Obj [(''modelId'', Str (job_modelId j)), (''currentEpoch'', Num (of_int c)),
             (''totalEpochs'', job_epochs j),
             (''progress'', (case to_number w (job_epochs j) of
                               Inl e \<Rightarrow> Undefined
                             | Inr n \<Rightarrow> percent w c n))])
       Undefined"

definition complete_message :: "world \<Rightarrow> job \<Rightarrow> message" where
  "complete_message w j =
     reply ''rvc-training-complete''
       (Obj [(''modelId'', Str (job_modelId j)), (''modelName'', job_modelName j),
             (''status'', Str ''ready''),
             (''modelPath'', Str (path_join w [dirname w, ''models'', job_modelId j @ ''.pth'']))])
       Undefined"

text \<open>
  One firing of the interval: the effects and the job afterwards, \<open>None\<close> once
  \<^verbatim>\<open>clearInterval\<close> has been called. The callback first adds 10, then builds the progress
  push, converting \<open>epochs\<close> to a number for the division; when that conversion throws,
  nothing catches the exception, nothing is sent and the process dies (no job is left
  either). Otherwise the push is sent and the comparison decides whether the job is
  complete.
\<close>

definition tick :: "world \<Rightarrow> job \<Rightarrow> effect list \<times> job option" where
  "tick w j =
     (let c = plus_ten w (job_currentEpoch j) in
      case to_number w (job_epochs j) of
        Inl e \<Rightarrow> ([Uncaught e], None)
      | Inr n \<Rightarrow>
          if num_ge c n
          then ([Send (job_client j) (progress_message w j c),
                 Send (job_client j) (complete_message w j)], None)
          else ([Send (job_client j) (progress_message w j c)],
                Some (j\<lparr>job_currentEpoch := c\<rparr>)))"

text \<open>
  The interval over \<open>n\<close> periods of one second: it fires each period until it is cleared.
\<close>

fun run_interval :: "world \<Rightarrow> nat \<Rightarrow> job \<Rightarrow> effect list \<times> job option" where
  "run_interval w 0 j = ([], Some j)"
| "run_interval w (Suc n) j =
     (case tick w j of
        (es, None) \<Rightarrow> (es, None)
      | (es, Some j') \<Rightarrow> (es @ fst (run_interval w n j'), snd (run_interval w n j')))"

subsection \<open>\<^verbatim>\<open>rvc-voice-conversion\<close>\<close>

definition conversion_reply :: "jsval \<Rightarrow> message" where
  "conversion_reply request =
     reply ''rvc-conversion-response''
       (Obj [(''convertedAudio'', own (own request ''data'') ''inputAudio''),
             (''modelId'', own (own request ''data'') ''modelId''),
             (''duration'', Num (7 / 2))])
       (own request ''requestId'')"

definition conversion_try :: "string \<Rightarrow> world \<Rightarrow> jsval \<Rightarrow> outcome" where
  "conversion_try cid w request =
     (case destructure (own request ''data'') ''inputAudio'' of
        Some e \<Rightarrow> raise [] e
      | None \<Rightarrow> finish [Send cid (conversion_reply request)] [])"

definition handle_conversion :: "string \<Rightarrow> world \<Rightarrow> jsval \<Rightarrow> outcome" where
  "handle_conversion cid w request =
     try_catch (conversion_try cid w request)
       (\<lambda>error. finish [Send cid (error_reply (conversion_error_prefix @ error_message w error)
                                    Undefined (own request ''requestId''))] [])"

subsection \<open>\<^verbatim>\<open>voicevox_request\<close>, the generic passthrough\<close>

text \<open>\<^verbatim>\<open>method.toUpperCase()\<close>: only a string has the method.\<close>

fun upper_of :: "world \<Rightarrow> jsval \<Rightarrow> js_error + string" where
  "upper_of w (Str s) = Inr (toUpperCase w s)"
| "upper_of w Undefined = Inl (TypeError (ReadOfNullish Undefined ''toUpperCase''))"
| "upper_of w Null = Inl (TypeError (ReadOfNullish Null ''toUpperCase''))"
| "upper_of w v = Inl (TypeError (NotAFunction v ''method.toUpperCase''))"

text \<open>
  \<^verbatim>\<open>endpoint.includes('/synthesis') || endpoint.includes('/audio')\<close> for an endpoint
  that is truthy: a substring test on a string, a membership test on an array, a
  \<^verbatim>\<open>TypeError\<close> on anything else.
\<close>

fun wants_binary :: "jsval \<Rightarrow> js_error + bool" where
  "wants_binary (Str s) = Inr (includes_str s ''/synthesis'' \<or> includes_str s ''/audio'')"
| "wants_binary (Arr xs) = Inr (Str ''/synthesis'' \<in> set xs \<or> Str ''/audio'' \<in> set xs)"
| "wants_binary v = Inl (TypeError (NotAFunction v ''endpoint.includes''))"

text \<open>\<^verbatim>\<open>response.headers['content-type'] || 'audio/wav'\<close>.\<close>

definition content_type :: "response \<Rightarrow> string" where
  "content_type r =
     (case map_of (resp_headers r) ''content-type'' of
        None \<Rightarrow> ''audio/wav''
      | Some t \<Rightarrow> if t = [] then ''audio/wav'' else t)"

definition response_data :: "response \<Rightarrow> jsval" where
  "response_data r =
     (case resp_data r of
        Buf bs \<Rightarrow> Obj [(''audio'', Str (''data:audio/wav;base64,'' @ b64encode bs)),
                       (''contentType'', Str (content_type r))]
      | v \<Rightarrow> v)"

text \<open>
  \<^verbatim>\<open>const { endpoint, method = 'GET', body, params } = request.data.payload || {}\<close>: the
  payload that is destructured, and the method with its default.
\<close>

definition payload_of :: "jsval \<Rightarrow> jsval" where
  "payload_of p = js_or p (Obj [])"

definition method_of :: "jsval \<Rightarrow> jsval" where
  "method_of payload =
     (if own payload ''method'' = Undefined then Str ''GET'' else own payload ''method'')"

text \<open>
  The \<^verbatim>\<open>axiosConfig\<close> object, for the URL that the template literal has built and the
  upper-cased method \<open>m\<close>.
\<close>

definition passthrough_config :: "string \<Rightarrow> jsval \<Rightarrow> string \<Rightarrow> bool \<Rightarrow> axios_config" where
  "passthrough_config url payload m binary =
     \<lparr>cfg_method = m,
      cfg_url = url,
      cfg_params = (if truthy (own payload ''params'') then own payload ''params'' else Undefined),
      cfg_data = (if truthy (own payload ''body'') \<and> m \<in> set [''POST'', ''PUT'', ''PATCH'']
                  then own payload ''body'' else Undefined),
      cfg_timeout = Some 30000,
      cfg_responseType = (if binary then Some ''arraybuffer'' else None)\<rparr>"

definition passthrough_reply :: "jsval \<Rightarrow> response \<Rightarrow> message" where
  "passthrough_reply request r =
     reply ''voicevox_request-response'' (response_data r) (own request ''requestId'')"

text \<open>\<^verbatim>\<open>await axios(axiosConfig)\<close> and the reply that follows.\<close>

definition passthrough_call :: "string \<Rightarrow> world \<Rightarrow> jsval \<Rightarrow> axios_config \<Rightarrow> outcome" where
  "passthrough_call cid w request cfg =
     (case backend w cfg of
        Inl f \<Rightarrow> raise [Http cfg (Inl f)] (AxiosError f)
      | Inr r \<Rightarrow> finish [Http cfg (Inr r), Send cid (passthrough_reply request r)] [])"

text \<open>
  The \<^verbatim>\<open>try\<close> block: the destructuring, the endpoint check, the URL built by a template
  literal, the logged line (a template literal over the method), the configuration, the
  call.
\<close>

definition passthrough_try :: "string \<Rightarrow> world \<Rightarrow> jsval \<Rightarrow> outcome" where
  "passthrough_try cid w request =
     (case getp (own request ''data'') ''payload'' of
        Inl e \<Rightarrow> raise [] e
      | Inr p \<Rightarrow>
          if \<not> truthy (own (payload_of p) ''endpoint'')
          then finish [Send cid (error_reply no_endpoint_text Undefined
                                   (own request ''requestId''))] []
          else
            (case template w (own (payload_of p) ''endpoint'') of
               Inl e \<Rightarrow> raise [] e
             | Inr path \<Rightarrow>
                 (case template w (method_of (payload_of p)) of
                    Inl e \<Rightarrow> raise [] e
                  | Inr logged \<Rightarrow>
                      (case upper_of w (method_of (payload_of p)) of
                         Inl e \<Rightarrow> raise [] e
                       | Inr m \<Rightarrow>
                           (case wants_binary (own (payload_of p) ''endpoint'') of
                              Inl e \<Rightarrow> raise [] e
                            | Inr binary \<Rightarrow>
                                passthrough_call cid w request
                                  (passthrough_config (VOICEVOX_URL w @ path) (payload_of p) m
                                     binary))))))"

text \<open>\<^verbatim>\<open>error.response?.statusText || error.message\<close> and \<^verbatim>\<open>error.response?.data\<close>.\<close>

fun status_or_message :: "world \<Rightarrow> js_error \<Rightarrow> string" where
  "status_or_message w (AxiosError h) =
     (case fail_response h of
        None \<Rightarrow> fail_message h
      | Some r \<Rightarrow> if resp_statusText r = [] then fail_message h else resp_statusText r)"
| "status_or_message w e = error_message w e"

fun error_body :: "js_error \<Rightarrow> jsval" where
  "error_body (AxiosError h) =
     (case fail_response h of None \<Rightarrow> Undefined | Some r \<Rightarrow> resp_data r)"
| "error_body e = Undefined"

definition handle_passthrough :: "string \<Rightarrow> world \<Rightarrow> jsval \<Rightarrow> outcome" where
  "handle_passthrough cid w request =
     try_catch (passthrough_try cid w request)
       (\<lambda>error. finish [Send cid (error_reply (api_error_prefix @ status_or_message w error)
                                    (error_body error) (own request ''requestId''))] [])"

subsection \<open>The router\<close>

text \<open>
  The \<^verbatim>\<open>default\<close> branch. Its template literal over \<^verbatim>\<open>request.type\<close> throws for a type
  that cannot be converted to a string, and no \<^verbatim>\<open>try\<close> of its own surrounds it.
\<close>

definition handle_unknown :: "string \<Rightarrow> world \<Rightarrow> jsval \<Rightarrow> jsval \<Rightarrow> outcome" where
  "handle_unknown cid w request t =
     (case template w t of
        Inl e \<Rightarrow> raise [] e
      | Inr printed \<Rightarrow>
          finish [Send cid (error_reply (''Unknown request type: '' @ printed) Undefined
                              (own request ''requestId''))] [])"

text \<open>
  A frame as \<^verbatim>\<open>JSON.parse(message.toString())\<close> leaves it: the parsed value, or the
  \<^verbatim>\<open>SyntaxError\<close> with its message.
\<close>

datatype frame = Malformed string | Parsed jsval

text \<open>The body of the handler's outer \<^verbatim>\<open>try\<close>: the parse and the \<^verbatim>\<open>switch\<close>.\<close>

definition route :: "string \<Rightarrow> world \<Rightarrow> frame \<Rightarrow> outcome" where
  "route cid w fr =
     (case fr of
        Malformed m \<Rightarrow> raise [] (SyntaxError m)
      | Parsed request \<Rightarrow>
          (case getp request ''type'' of
             Inl e \<Rightarrow> raise [] e
           | Inr t \<Rightarrow>
               if t = Str ''ping'' then handle_ping cid w request
               else if t = Str ''voicevox-speakers'' then handle_speakers cid w request
               else if t = Str ''voicevox-synthesis'' then handle_synthesis cid w request
               else if t = Str ''rvc-upload-training-data'' then handle_upload cid w request
               else if t = Str ''rvc-start-training'' then handle_training cid w request
               else if t = Str ''rvc-voice-conversion'' then handle_conversion cid w request
               else if t = Str ''voicevox_request'' then handle_passthrough cid w request
               else handle_unknown cid w request t))"

text \<open>The whole \<^verbatim>\<open>ws.on('message', ...)\<close> callback, with its outer \<^verbatim>\<open>catch\<close>.\<close>

definition on_message :: "string \<Rightarrow> world \<Rightarrow> frame \<Rightarrow> outcome" where
  "on_message cid w fr =
     try_catch (route cid w fr)
       (\<lambda>error. finish [Send cid (error_reply (processing_error_prefix @ error_message w error)
                                    Undefined Undefined)] [])"

section \<open>Connections, the status broadcast and shutdown\<close>

text \<open>
  The registry \<^verbatim>\<open>clients\<close> is a \<^verbatim>\<open>Map\<close> from client id to socket: an association list in
  insertion order, each socket with its \<^verbatim>\<open>readyState\<close> (1 is OPEN).
\<close>

type_synonym registry = "(string \<times> nat) list"

definition checkServiceStatus :: "world \<Rightarrow> string \<Rightarrow> bool" where
  "checkServiceStatus w url =
     (case backend w (axios_get url (Some 2000)) of
        Inl f \<Rightarrow> False
      | Inr r \<Rightarrow> resp_status r = 200)"

definition status_message :: "world \<Rightarrow> message" where
  "status_message w =
     reply ''service-status''
       (Obj [(''voicevox'', Bool (checkServiceStatus w (VOICEVOX_URL w))),
             (''rvc'', Bool (checkServiceStatus w (RVC_URL w @ ''/health''))),
             (''timestamp'', Str (date_iso w))])
       Undefined"

definition updateServiceStatus :: "world \<Rightarrow> registry \<Rightarrow> effect list" where
  "updateServiceStatus w clients =
     [Http (axios_get (VOICEVOX_URL w) (Some 2000))
        (backend w (axios_get (VOICEVOX_URL w) (Some 2000))),
      Http (axios_get (RVC_URL w @ ''/health'') (Some 2000))
        (backend w (axios_get (RVC_URL w @ ''/health'') (Some 2000)))]
     @ map (\<lambda>(cid, readyState). Send cid (status_message w))
         (filter (\<lambda>(cid, readyState). readyState = 1) clients)"

definition connected_message :: "string \<Rightarrow> message" where
  "connected_message clientId =
     reply ''connected''
       (Obj [(''clientId'', Str clientId), (''message'', Str connected_text)]) Undefined"

text \<open>\<^verbatim>\<open>clients.set(clientId, ws)\<close> and \<^verbatim>\<open>clients.delete(clientId)\<close>.\<close>

definition clients_set :: "string \<Rightarrow> nat \<Rightarrow> registry \<Rightarrow> registry" where
  "clients_set cid ws clients =
     (if cid \<in> fst ` set clients
      then map (\<lambda>(c, s). if c = cid then (c, ws) else (c, s)) clients
      else clients @ [(cid, ws)])"

definition clients_delete :: "string \<Rightarrow> registry \<Rightarrow> registry" where
  "clients_delete cid clients = filter (\<lambda>(c, s). c \<noteq> cid) clients"

definition on_connection :: "world \<Rightarrow> string \<Rightarrow> registry \<Rightarrow> registry \<times> effect list" where
  "on_connection w clientId clients =
     (clients_set clientId 1 clients,
      Send clientId (connected_message clientId)
        # updateServiceStatus w (clients_set clientId 1 clients))"

definition shutdown_message :: message where
  "shutdown_message = reply ''server-shutdown'' (Obj [(''message'', Str shutdown_text)]) Undefined"

text \<open>The \<^verbatim>\<open>SIGINT\<close> handler.\<close>

definition shutdown :: "world \<Rightarrow> registry \<Rightarrow> effect list" where
  "shutdown w clients =
     concat (map (\<lambda>(clientId, client). [Send clientId shutdown_message, CloseConn clientId]) clients)
     @ [StopWss, StopHttp, RemoveDir ''uploads'' (rm_uploads w), Exit 0]"

section \<open>Observations on effect lists\<close>

text \<open>An axios call that failed.\<close>

fun is_failed_call :: "effect \<Rightarrow> bool" where
  "is_failed_call (Http c (Inl f)) = True"
| "is_failed_call e = False"

definition backend_failed :: "effect list \<Rightarrow> bool" where
  "backend_failed es = list_ex is_failed_call es"

text \<open>Every message sent by an outcome carries the given \<^verbatim>\<open>requestId\<close>.\<close>

definition echoes :: "jsval \<Rightarrow> outcome \<Rightarrow> bool" where
  "echoes rid out = (\<forall>m \<in> set (sends (effects out)). requestId m = rid)"

text \<open>The files that a list of effects has written, the last write of a path winning.\<close>

fun written :: "effect list \<Rightarrow> string \<Rightarrow> byte list option" where
  "written [] = Map.empty"
| "written (WriteFile path bytes None # es) =
     (\<lambda>p. case written es p of Some later \<Rightarrow> Some later
                              | None \<Rightarrow> if p = path then Some bytes else None)"
| "written (e # es) = written es"

text \<open>
  The shutdown order in the words of the specification, to compare with \<open>shutdown\<close>: the
  push to all registered connections, then every connection closed, then no more
  accepting, then the upload storage deleted.
\<close>

definition shutdown_as_specified :: "world \<Rightarrow> registry \<Rightarrow> effect list" where
  "shutdown_as_specified w clients =
     map (\<lambda>(clientId, client). Send clientId shutdown_message) clients
     @ map (\<lambda>(clientId, client). CloseConn clientId) clients
     @ [StopWss, StopHttp, RemoveDir ''uploads'' (rm_uploads w), Exit 0]"

section \<open>A concrete world and concrete requests\<close>

text \<open>
  A world in which both backends refuse connections, used to run the handler on concrete
  frames: Node on V8, with the conversions that the frames below need (upper case of ASCII
  letters, integers printed in decimal, the empty string read as 0, the percentage as
  the exact quotient with Infinity and NaN written as \<^verbatim>\<open>null\<close>). No frame below takes
  \<^verbatim>\<open>currentEpoch\<close> beyond \<open>2^53\<close>, where the rounded sum would be needed; the field for
  it is filled with the plain sum.
\<close>

fun decimal :: "nat \<Rightarrow> string" where
  "decimal n =
     (if n < 10 then [''0123456789'' ! n]
      else decimal (n div 10) @ [''0123456789'' ! (n mod 10)])"

definition ascii_upper :: "char \<Rightarrow> char" where
  "ascii_upper c =
     (case map_of (zip ''abcdefghijklmnopqrstuvwxyz'' ''ABCDEFGHIJKLMNOPQRSTUVWXYZ'') c of
        None \<Rightarrow> c
      | Some u \<Rightarrow> u)"

text \<open>The wording of V8's \<^verbatim>\<open>TypeError\<close> messages.\<close>

definition quoted :: "string \<Rightarrow> string" where
  "quoted s = CHR 0x27 # s @ [CHR 0x27]"

fun nullish_name :: "jsval \<Rightarrow> string" where
  "nullish_name Null = ''null''"
| "nullish_name v = ''undefined''"

fun v8_message :: "fault \<Rightarrow> string" where
  "v8_message (ReadOfNullish v k) =
     ''Cannot read properties of '' @ nullish_name v @ '' (reading '' @ quoted k @ '')''"
| "v8_message (Destructure v k) =
     ''Cannot destructure property '' @ quoted k @ '' of '' @ quoted ''request.data''
       @ '' as it is '' @ nullish_name v @ ''.''"
| "v8_message (NotAFunction v expr) = expr @ '' is not a function''"
| "v8_message (NotAnObject v) = ''Cannot convert undefined or null to object''"
| "v8_message (BadBufferArgument v) =
     ''The first argument must be of type string or an instance of Buffer, ArrayBuffer, ''
       @ ''or Array or an Array-like Object. Received undefined''"
| "v8_message (NotPrimitive v) = ''Cannot convert object to primitive value''"

definition refused :: http_failure where
  "refused = \<lparr>fail_message = ''connect ECONNREFUSED 127.0.0.1:50021'', fail_response = None\<rparr>"

definition offline_world :: world where
  "offline_world =
     \<lparr>VOICEVOX_URL = ''http://localhost:50021'',
      RVC_URL = ''http://localhost:10102'',
      dirname = ''/opt/bridge'',
      backend = (\<lambda>cfg. Inl refused),
      uuidv4 = (\<lambda>n. if n = 0 then ''uuid-a'' else ''uuid-b''),
      date_now = 0,
      date_iso = ''1970-01-01T00:00:00.000Z'',
      mock_duration = Num 150,
      writeFile = (\<lambda>path bytes. None),
      rm_uploads = None,
      num_to_string = (\<lambda>r. (if r < 0 then ''-'' else []) @ decimal (nat \<lfloor>\<bar>r\<bar>\<rfloor>)),
      buf_to_string = map (\<lambda>b. char_of (unat b)),
      str_to_number = (\<lambda>s. if s = [] then Finite 0 else NaN),
      float_add10 = (\<lambda>c. c + 10),
      toUpperCase = map ascii_upper,
      type_error_message = v8_message,
      path_join = (\<lambda>parts. case parts of [] \<Rightarrow> ''.''
                            | p # ps \<Rightarrow> p @ concat (map (\<lambda>q. CHR ''/'' # q) ps)),
      buffer_from = (\<lambda>v. Inl (TypeError (BadBufferArgument v))),
      base64_lenient = (\<lambda>s. []),
      object_assign = (\<lambda>target source. Inr target),
      percent = (\<lambda>c n. case n of
                   Finite x \<Rightarrow> if x = 0 then Null else Num (of_int c / x * 100)
                 | PlusInf \<Rightarrow> Num 0
                 | MinusInf \<Rightarrow> Num 0
                 | NaN \<Rightarrow> Null)\<rparr>"


definition training_request :: "rat \<Rightarrow> jsval" where
  "training_request e =
     Obj [(''type'', Str ''rvc-start-training''),
          (''data'', Obj [(''modelName'', Str ''m1''), (''epochs'', Num e)]),
          (''requestId'', Str ''r2'')]"

text \<open>
  What \<^verbatim>\<open>JSON.parse\<close> makes of \<^verbatim>\<open>{"toString":1}\<close>: an object that no conversion to a
  string or to a number accepts.
\<close>

definition unconvertible :: jsval where
  "unconvertible = Obj [(''toString'', Num 1)]"

definition unconvertible_epochs_request :: jsval where
  "unconvertible_epochs_request =
     Obj [(''type'', Str ''rvc-start-training''),
          (''data'', Obj [(''modelName'', Str ''m1''), (''epochs'', unconvertible)]),
          (''requestId'', Str ''r7'')]"

definition speakers_request :: jsval where
  "speakers_request = Obj [(''type'', Str ''voicevox-speakers''), (''requestId'', Str ''r8'')]"

definition training_job :: "rat \<Rightarrow> job" where
  "training_job e =
     \<lparr>job_client = ''c1'', job_modelId = ''uuid-a'', job_modelName = Str ''m1'',
      job_epochs = Num e, job_currentEpoch = 0\<rparr>"

text \<open>The \<^verbatim>\<open>currentEpoch\<close> values of the training-progress pushes among some effects.\<close>

definition progress_epochs :: "effect list \<Rightarrow> jsval list" where
  "progress_epochs es =
     map (\<lambda>m. own (mdata m) ''currentEpoch'')
       (filter (\<lambda>m. mtype m = ''rvc-training-progress'') (sends es))"




definition conversion_request :: jsval where
  "conversion_request =
     Obj [(''type'', Str ''rvc-voice-conversion''),
          (''data'', Obj [(''inputAudio'', Str ''data:audio/wav;base64,AAAA''),
                          (''modelId'', Str ''model-7'')]),
          (''requestId'', Str ''r10'')]"

definition konnichiwa :: string where
  "konnichiwa =
     [CHR 0xE3, CHR 0x81, CHR 0x93, CHR 0xE3, CHR 0x82, CHR 0x93, CHR 0xE3, CHR 0x81, CHR 0xAB,
      CHR 0xE3, CHR 0x81, CHR 0xA1, CHR 0xE3, CHR 0x81, CHR 0xAF]"

definition synthesis_request :: jsval where
  "synthesis_request =
     Obj [(''type'', Str ''voicevox-synthesis''),
          (''data'', Obj [(''text'', Str konnichiwa), (''speaker_id'', Num 3)]),
          (''requestId'', Str ''r1'')]"

definition synthesis_without_data :: jsval where
  "synthesis_without_data =
     Obj [(''type'', Str ''voicevox-synthesis''), (''requestId'', Str ''r1'')]"

definition upload_request :: jsval where
  "upload_request =
     Obj [(''type'', Str ''rvc-upload-training-data''),
          (''data'', Obj [(''fileName'', Str ''a.wav''),
                          (''fileData'', Str (''data:audio/wav;base64'' @ CHR '','' # b64encode [1, 2, 3, 255])),
                          (''fileSize'', Num 4)]),
          (''requestId'', Str ''r8'')]"

definition upload_unconvertible_name :: jsval where
  "upload_unconvertible_name =
     Obj [(''type'', Str ''rvc-upload-training-data''),
          (''data'', Obj [(''fileName'', unconvertible),
                          (''fileData'', Str (''data:audio/wav;base64'' @ CHR '','' # b64encode [1, 2, 3, 255])),
                          (''fileSize'', Num 4)]),
          (''requestId'', Str ''r11'')]"

definition conversion_without_data :: jsval where
  "conversion_without_data =
     Obj [(''type'', Str ''rvc-voice-conversion''), (''requestId'', Str ''r10'')]"

section \<open>Base64 round trip and the comma split\<close>

lemma index_of_nth: "distinct xs \<Longrightarrow> i < length xs \<Longrightarrow> index_of xs (xs ! i) = i"
proof (induction xs arbitrary: i)
  case Nil
  then show ?case by simp
next
  case (Cons x xs)
  show ?case
  proof (cases i)
    case 0
    then show ?thesis by simp
  next
    case (Suc k)
    with Cons.prems have "k < length xs" "xs ! k \<in> set xs" "x \<notin> set xs" "distinct xs" by auto
    with Cons.IH[of k] Suc show ?thesis by auto
  qed
qed

lemma b64_alphabet_distinct: "distinct b64_alphabet"
  by (simp add: b64_alphabet_def)

lemma b64_alphabet_length: "length b64_alphabet = 64"
  by (simp add: b64_alphabet_def)

lemma b64_index_char: "i < 64 \<Longrightarrow> b64_index (b64_char i) = i"
  by (simp add: b64_index_def b64_char_def index_of_nth b64_alphabet_distinct b64_alphabet_length)

lemma b64_char_in: "b64_char i \<in> set b64_alphabet"
  by (simp add: b64_char_def b64_alphabet_length)

lemma b64_char_not_pad: "b64_char i \<noteq> CHR ''=''"
proof -
  have "CHR ''='' \<notin> set b64_alphabet" by (simp add: b64_alphabet_def)
  with b64_char_in[of i] show ?thesis by metis
qed

lemma b64_char_not_comma: "b64_char i \<noteq> CHR '',''"
proof -
  have "CHR '','' \<notin> set b64_alphabet" by (simp add: b64_alphabet_def)
  with b64_char_in[of i] show ?thesis by metis
qed

lemma byte_lt: "unat (a :: byte) < 256"
  using unsigned_less[of a] by simp

lemma sextet1: "x < 256 \<Longrightarrow> x div 4 < (64::nat)"
  by simp

lemma sextet2: "y < 256 \<Longrightarrow> (x mod 4) * 16 + y div 16 < (64::nat)"
proof -
  assume "y < 256"
  then have "y div 16 < 16" by simp
  moreover have "x mod 4 < 4" by simp
  ultimately show ?thesis by linarith
qed

lemma sextet3: "z < 256 \<Longrightarrow> (y mod 16) * 4 + z div 64 < (64::nat)"
proof -
  assume "z < 256"
  then have "z div 64 < 4" by simp
  moreover have "y mod 16 < 16" by simp
  ultimately show ?thesis by linarith
qed

lemma octet1: "y < 256 \<Longrightarrow> (x div 4) * 4 + ((x mod 4) * 16 + y div 16) div 16 = (x::nat)"
proof -
  assume "y < 256"
  then have "y div 16 < 16" by simp
  then have "((x mod 4) * 16 + y div 16) div 16 = x mod 4" by simp
  then show ?thesis by simp
qed

lemma octet2: "y < 256 \<Longrightarrow> z < 256 \<Longrightarrow> (((x mod 4) * 16 + y div 16) mod 16) * 16 + ((y mod 16) * 4 + z div 64) div 4 = (y::nat)"
proof -
  assume "y < 256" "z < 256"
  then have a: "y div 16 < 16" and b: "z div 64 < 4" by simp_all
  from a have "((x mod 4) * 16 + y div 16) mod 16 = y div 16" by simp
  moreover from b have "((y mod 16) * 4 + z div 64) div 4 = y mod 16" by simp
  ultimately show ?thesis by simp
qed

lemma octet3: "z < 256 \<Longrightarrow> (((y mod 16) * 4 + z div 64) mod 4) * 64 + z mod 64 = (z::nat)"
proof -
  assume "z < 256"
  then have b: "z div 64 < 4" by simp
  then have "((y mod 16) * 4 + z div 64) mod 4 = z div 64" by simp
  then show ?thesis by simp
qed


lemma decode_group:
  assumes "c3 \<noteq> CHR ''=''" "c4 \<noteq> CHR ''=''"
  shows "b64decode (c1 # c2 # c3 # c4 # rest) =
     [of_nat (b64_index c1 * 4 + b64_index c2 div 16),
      of_nat ((b64_index c2 mod 16) * 16 + b64_index c3 div 4),
      of_nat ((b64_index c3 mod 4) * 64 + b64_index c4)] @ b64decode rest"
  using assms by simp

lemma b64_roundtrip: "b64decode (b64encode bs) = bs"
proof (induction bs rule: b64encode.induct)
  case 1
  show ?case by simp
next
  case (2 a)
  have x: "unat a < 256" by (rule byte_lt)
  have i1: "b64_index (b64_char (unat a div 4)) = unat a div 4"
    using x by (simp add: b64_index_char)
  have i2: "b64_index (b64_char ((unat a mod 4) * 16)) = (unat a mod 4) * 16"
    using sextet2[of 0 "unat a"] by (simp add: b64_index_char)
  have "unat a div 4 * 4 + (unat a mod 4 * 16) div 16 = unat a" by simp
  then show ?case by (simp add: i1 i2 del: mult_div_mod_eq div_mult_mod_eq)
next
  case (3 a b)
  have x: "unat a < 256" and y: "unat b < 256" by (rule byte_lt)+
  have i1: "b64_index (b64_char (unat a div 4)) = unat a div 4"
    using x by (simp add: b64_index_char)
  have i2: "b64_index (b64_char ((unat a mod 4) * 16 + unat b div 16)) = (unat a mod 4) * 16 + unat b div 16"
    using sextet2[OF y] by (simp add: b64_index_char)
  have i3: "b64_index (b64_char ((unat b mod 16) * 4)) = (unat b mod 16) * 4"
    using sextet3[of 0 "unat b"] by (simp add: b64_index_char)
  have o1: "unat a div 4 * 4 + ((unat a mod 4) * 16 + unat b div 16) div 16 = unat a"
    by (rule octet1[OF y])
  have o2: "(((unat a mod 4) * 16 + unat b div 16) mod 16) * 16 + ((unat b mod 16) * 4) div 4 = unat b"
    using octet2[OF y, of 0 "unat a"] by simp
  show ?case
    unfolding b64encode.simps b64decode.simps i1 i2 i3 o1 o2
    by (simp add: b64_char_not_pad)
next
  case (4 a b c rest)
  have x: "unat a < 256" and y: "unat b < 256" and z: "unat c < 256" by (rule byte_lt)+
  have i1: "b64_index (b64_char (unat a div 4)) = unat a div 4"
    using x by (simp add: b64_index_char)
  have i2: "b64_index (b64_char ((unat a mod 4) * 16 + unat b div 16)) = (unat a mod 4) * 16 + unat b div 16"
    using sextet2[OF y] by (simp add: b64_index_char)
  have i3: "b64_index (b64_char ((unat b mod 16) * 4 + unat c div 64)) = (unat b mod 16) * 4 + unat c div 64"
    using sextet3[OF z] by (simp add: b64_index_char)
  have i4: "b64_index (b64_char (unat c mod 64)) = unat c mod 64"
    by (simp add: b64_index_char)
  have o1: "unat a div 4 * 4 + ((unat a mod 4) * 16 + unat b div 16) div 16 = unat a"
    by (rule octet1[OF y])
  have o2: "(((unat a mod 4) * 16 + unat b div 16) mod 16) * 16 + ((unat b mod 16) * 4 + unat c div 64) div 4 = unat b"
    by (rule octet2[OF y z])
  have o3: "(((unat b mod 16) * 4 + unat c div 64) mod 4) * 64 + unat c mod 64 = unat c"
    by (rule octet3[OF z])
  have "b64decode (b64encode (a # b # c # rest)) = [a, b, c] @ b64decode (b64encode rest)"
    unfolding b64encode.simps append_Cons append_Nil
    by (subst decode_group) (simp_all only: b64_char_not_pad i1 i2 i3 i4 o1 o2 o3 of_nat_unat unsigned_eq_0_iff not_False_eq_True, simp_all)
  with 4 show ?case by simp
qed

lemma b64_canonical: "canonical_b64 (b64encode bs)"
  by (simp add: canonical_b64_def b64_roundtrip)

lemma b64_no_comma: "CHR '','' \<notin> set (b64encode bs)"
  by (induction bs rule: b64encode.induct) (simp_all add: b64_char_not_comma [THEN not_sym])

lemma split_on_no_sep: "sep \<notin> set s \<Longrightarrow> split_on sep s = [s]"
  by (induction s) auto

lemma split_on_first: "sep \<notin> set p \<Longrightarrow> split_on sep (p @ sep # s) = p # split_on sep s"
  by (induction p) auto

lemma split_data_uri:
  "CHR '','' \<notin> set p \<Longrightarrow>
   at_index (split_on CHR '','' (p @ CHR '','' # b64encode bs)) 1 = Str (b64encode bs)"
  by (simp add: split_on_first split_on_no_sep b64_no_comma at_index_def)

section \<open>The router and \<^verbatim>\<open>try\<close>/\<^verbatim>\<open>catch\<close>\<close>

lemma try_catch_finish: "try_catch (finish es ts) h = finish es ts"
  by (simp add: try_catch_def finish_def)

lemma try_catch_raise:
  "try_catch (raise es e) h =
     \<lparr>effects = es @ effects (h e), timers = timers (h e), thrown = thrown (h e)\<rparr>"
  by (simp add: try_catch_def raise_def)


lemma getp_type_not_nullish: "getp request k = Inr v \<Longrightarrow> \<not> nullish request"
  by (simp add: getp_def split: if_splits)

lemma getp_type_own: "getp request k = Inr v \<Longrightarrow> own request k = v"
  by (simp add: getp_def split: if_splits)

lemma upper_of_error: "upper_of w v = Inl e \<Longrightarrow> \<forall>h. e \<noteq> AxiosError h"
  by (cases v) auto

lemma wants_binary_error: "wants_binary v = Inl e \<Longrightarrow> \<forall>h. e \<noteq> AxiosError h"
  by (cases v) auto

lemma to_str_error:
  "to_str w v = Inl e \<Longrightarrow> \<exists>x. e = TypeError (NotPrimitive x)"
  "elems_str w xs = Inl e \<Longrightarrow> \<exists>x. e = TypeError (NotPrimitive x)"
  by (induction w v and w xs arbitrary: e and e rule: to_str_elems_str.induct)
     (auto split: sum.splits if_splits)

lemma template_error: "template w v = Inl e \<Longrightarrow> \<forall>h. e \<noteq> AxiosError h"
  using to_str_error(1)[of w v e] by (auto simp: template_def)

lemma template_Str: "template w (Str s) = Inr s"
  by (simp add: template_def)

lemma route_typed:
  "getp request ''type'' = Inr (Str t) \<Longrightarrow>
   route cid w (Parsed request) =
     (if t = ''ping'' then handle_ping cid w request
      else if t = ''voicevox-speakers'' then handle_speakers cid w request
      else if t = ''voicevox-synthesis'' then handle_synthesis cid w request
      else if t = ''rvc-upload-training-data'' then handle_upload cid w request
      else if t = ''rvc-start-training'' then handle_training cid w request
      else if t = ''rvc-voice-conversion'' then handle_conversion cid w request
      else if t = ''voicevox_request'' then handle_passthrough cid w request
      else handle_unknown cid w request (Str t))"
  by (simp add: route_def)

lemma on_message_finish:
  "route cid w fr = finish es ts \<Longrightarrow> on_message cid w fr = finish es ts"
  by (simp add: on_message_def try_catch_finish)

section \<open>The generic passthrough\<close>

lemma passthrough_call_cases:
  "(\<exists>f. passthrough_call cid w request cfg = raise [Http cfg (Inl f)] (AxiosError f))
   \<or> (\<exists>r. passthrough_call cid w request cfg =
          finish [Http cfg (Inr r), Send cid (passthrough_reply request r)] [])"
proof (cases "backend w cfg")
  case (Inl f)
  then have "passthrough_call cid w request cfg = raise [Http cfg (Inl f)] (AxiosError f)"
    by (simp add: passthrough_call_def)
  then show ?thesis by blast
next
  case (Inr r)
  then have "passthrough_call cid w request cfg =
      finish [Http cfg (Inr r), Send cid (passthrough_reply request r)] []"
    by (simp add: passthrough_call_def)
  then show ?thesis by blast
qed

lemma passthrough_try_cases:
  "(\<exists>e. passthrough_try cid w request = raise [] e \<and> (\<forall>h. e \<noteq> AxiosError h))
   \<or> passthrough_try cid w request =
        finish [Send cid (error_reply no_endpoint_text Undefined (own request ''requestId''))] []
   \<or> (\<exists>cfg f. passthrough_try cid w request = raise [Http cfg (Inl f)] (AxiosError f))
   \<or> (\<exists>cfg r. passthrough_try cid w request =
          finish [Http cfg (Inr r), Send cid (passthrough_reply request r)] [])"
proof (cases "nullish (own request ''data'')")
  case True
  then have "passthrough_try cid w request
      = raise [] (TypeError (ReadOfNullish (own request ''data'') ''payload''))"
    by (simp add: passthrough_try_def getp_def)
  moreover have "\<forall>h. TypeError (ReadOfNullish (own request ''data'') ''payload'') \<noteq> AxiosError h"
    by simp
  ultimately show ?thesis by blast
next
  case data: False
  define payload where "payload = payload_of (own (own request ''data'') ''payload'')"
  show ?thesis
  proof (cases "truthy (own payload ''endpoint'')")
    case False
    with data have "passthrough_try cid w request
      = finish [Send cid (error_reply no_endpoint_text Undefined (own request ''requestId''))] []"
      by (simp add: passthrough_try_def getp_def payload_def)
    then show ?thesis by blast
  next
    case ep: True
    show ?thesis
    proof (cases "template w (own payload ''endpoint'')")
      case (Inl e)
      with data ep have "passthrough_try cid w request = raise [] e"
        by (simp add: passthrough_try_def getp_def payload_def)
      with template_error[OF Inl] show ?thesis by blast
    next
      case url: (Inr path)
      show ?thesis
      proof (cases "template w (method_of payload)")
        case (Inl e)
        with data ep url have "passthrough_try cid w request = raise [] e"
          by (simp add: passthrough_try_def getp_def payload_def)
        with template_error[OF Inl] show ?thesis by blast
      next
        case logged: (Inr line)
        show ?thesis
        proof (cases "upper_of w (method_of payload)")
          case (Inl e)
          with data ep url logged have "passthrough_try cid w request = raise [] e"
            by (simp add: passthrough_try_def getp_def payload_def)
          with upper_of_error[OF Inl] show ?thesis by blast
        next
          case m: (Inr m)
          show ?thesis
          proof (cases "wants_binary (own payload ''endpoint'')")
            case (Inl e)
            with data ep url logged m have "passthrough_try cid w request = raise [] e"
              by (simp add: passthrough_try_def getp_def payload_def)
            with wants_binary_error[OF Inl] show ?thesis by blast
          next
            case (Inr binary)
            with data ep url logged m have "passthrough_try cid w request =
                passthrough_call cid w request
                  (passthrough_config (VOICEVOX_URL w @ path) payload m binary)"
              by (simp add: passthrough_try_def getp_def payload_def)
            with passthrough_call_cases[of cid w request
                "passthrough_config (VOICEVOX_URL w @ path) payload m binary"]
            show ?thesis by metis
          qed
        qed
      qed
    qed
  qed
qed





section \<open>Voice conversion\<close>

text \<open>
  Claim C10, as amended. A conversion request whose \<^verbatim>\<open>data\<close> is present (neither
  \<^verbatim>\<open>null\<close> nor absent) gets, in every world and so whatever the backends do, exactly one
  reply and no other effect: no axios call is made. The reply is a conversion response
  that echoes the \<^verbatim>\<open>requestId\<close> and the given \<^verbatim>\<open>modelId\<close>, returns the caller's
  \<^verbatim>\<open>inputAudio\<close> unchanged as \<^verbatim>\<open>convertedAudio\<close>, and has the duration 3.5.
\<close>

theorem conversion_echo:
  assumes "getp request ''type'' = Inr (Str ''rvc-voice-conversion'')"
    and "\<not> nullish (own request ''data'')"
  shows "on_message cid w (Parsed request) = finish [Send cid (conversion_reply request)] []
     \<and> mtype (conversion_reply request) = ''rvc-conversion-response''
     \<and> requestId (conversion_reply request) = own request ''requestId''
     \<and> own (mdata (conversion_reply request)) ''convertedAudio'' = own (own request ''data'') ''inputAudio''
     \<and> own (mdata (conversion_reply request)) ''modelId'' = own (own request ''data'') ''modelId''
     \<and> own (mdata (conversion_reply request)) ''duration'' = Num (7 / 2)
     \<and> http_calls (effects (on_message cid w (Parsed request))) = []"
proof -
  have "handle_conversion cid w request = finish [Send cid (conversion_reply request)] []"
    using assms(2)
    by (simp add: handle_conversion_def conversion_try_def destructure_def try_catch_finish)
  then have "on_message cid w (Parsed request) = finish [Send cid (conversion_reply request)] []"
    using assms(1) by (simp add: route_typed on_message_finish)
  then show ?thesis
    by (simp add: conversion_reply_def reply_def http_calls_def finish_def)
qed

theorem conversion_echo_witness:
  "on_message ''c1'' offline_world (Parsed conversion_request) =
     finish [Send ''c1'' (reply ''rvc-conversion-response''
               (Obj [(''convertedAudio'', Str ''data:audio/wav;base64,AAAA''),
                     (''modelId'', Str ''model-7''), (''duration'', Num (7 / 2))])
               (Str ''r10''))] []"
proof -
  have t: "getp conversion_request ''type'' = Inr (Str ''rvc-voice-conversion'')"
    by (simp add: conversion_request_def getp_def)
  have d: "\<not> nullish (own conversion_request ''data'')"
    by (simp add: conversion_request_def)
  from conversion_echo[OF t d, of "''c1''" offline_world] show ?thesis
    by (simp add: conversion_request_def conversion_reply_def)
qed

text \<open>
  The claim as it was stated fails on a conversion request that carries no \<^verbatim>\<open>data\<close>: the
  destructuring throws, and the reply is an error reply.
\<close>

theorem conversion_without_data_is_error:
  "on_message ''c1'' offline_world (Parsed conversion_without_data) =
     finish [Send ''c1'' (error_reply
               (conversion_error_prefix @ v8_message (Destructure Undefined ''inputAudio''))
               Undefined (Str ''r10''))] []
   \<and> map mtype (sends (effects (on_message ''c1'' offline_world (Parsed conversion_without_data))))
       = [''error'']"
  by (simp add: on_message_def route_def getp_def conversion_without_data_def
      handle_conversion_def conversion_try_def destructure_def try_catch_def raise_def finish_def
      offline_world_def error_reply_def sends_def)

section \<open>Exceptions at the router boundary\<close>

lemma try_catch_thrown_none: "(\<And>e. thrown (h e) = None) \<Longrightarrow> thrown (try_catch t h) = None"
  by (simp add: try_catch_def split: option.splits)

lemma thrown_finish: "thrown (finish es ts) = None"
  by (simp add: finish_def)

lemma thrown_raise: "thrown (raise es e) = Some e"
  by (simp add: raise_def)

lemma handle_ping_thrown: "thrown (handle_ping cid w request) = None"
  by (simp add: handle_ping_def thrown_finish)

lemma handle_speakers_thrown: "thrown (handle_speakers cid w request) = None"
  by (simp add: handle_speakers_def Let_def try_catch_thrown_none thrown_finish)

lemma handle_upload_thrown: "thrown (handle_upload cid w request) = None"
  by (simp add: handle_upload_def try_catch_thrown_none thrown_finish)

lemma handle_training_thrown: "thrown (handle_training cid w request) = None"
  by (simp add: handle_training_def try_catch_thrown_none thrown_finish)

lemma handle_conversion_thrown: "thrown (handle_conversion cid w request) = None"
  by (simp add: handle_conversion_def try_catch_thrown_none thrown_finish)

lemma handle_passthrough_thrown: "thrown (handle_passthrough cid w request) = None"
  by (simp add: handle_passthrough_def try_catch_thrown_none thrown_finish)

lemma handle_unknown_thrown:
  "thrown (handle_unknown cid w request t) = Some e \<Longrightarrow> handle_unknown cid w request t = raise [] e"
  by (cases "template w t") (simp_all add: handle_unknown_def raise_def finish_def)

lemma synthesis_without_data:
  "nullish (own request ''data'') \<Longrightarrow>
   handle_synthesis cid w request = raise [] (TypeError (ReadOfNullish (own request ''data'') ''text''))"
  by (simp add: handle_synthesis_def synthesis_try_def synthesis_catch_def getp_def
      try_catch_def raise_def)

lemma synthesis_catch_with_data:
  "\<not> nullish (own request ''data'') \<Longrightarrow>
   synthesis_catch cid w request = finish [Send cid (mock_synthesis_reply request)] []"
  by (simp add: synthesis_catch_def getp_def)

lemma synthesis_with_data_thrown:
  "\<not> nullish (own request ''data'') \<Longrightarrow> thrown (handle_synthesis cid w request) = None"
  by (simp add: handle_synthesis_def synthesis_catch_with_data try_catch_thrown_none thrown_finish)

lemma handle_synthesis_thrown:
  "thrown (handle_synthesis cid w request) = Some e \<Longrightarrow> handle_synthesis cid w request = raise [] e"
proof (cases "nullish (own request ''data'')")
  case True
  assume "thrown (handle_synthesis cid w request) = Some e"
  with synthesis_without_data[OF True, of cid w] show ?thesis by (simp add: raise_def)
next
  case False
  assume "thrown (handle_synthesis cid w request) = Some e"
  with synthesis_with_data_thrown[OF False, of cid w] show ?thesis by simp
qed

lemmas handler_thrown =
  handle_ping_thrown handle_speakers_thrown handle_upload_thrown handle_training_thrown
  handle_conversion_thrown handle_passthrough_thrown

lemma route_thrown:
  assumes "thrown (route cid w fr) = Some e"
  shows "route cid w fr = raise [] e"
proof (cases fr)
  case (Malformed m)
  with assms show ?thesis by (simp add: route_def raise_def)
next
  case (Parsed request)
  show ?thesis
  proof (cases "getp request ''type''")
    case (Inl x)
    with assms Parsed show ?thesis by (simp add: route_def raise_def)
  next
    case (Inr t)
    with assms Parsed have "route cid w fr = handle_synthesis cid w request
        \<or> route cid w fr = handle_unknown cid w request t"
      by (simp add: route_def handler_thrown split: if_splits)
    with assms handle_synthesis_thrown[of cid w request e] handle_unknown_thrown[of cid w request t e]
    show ?thesis by auto
  qed
qed

text \<open>
  The synchronous part of the message handler. A frame that is not valid JSON makes the
  processing throw. Whenever the processing of a frame throws up to the handler's outer
  \<^verbatim>\<open>catch\<close>, the whole handler does exactly one thing: it sends one error reply, which
  carries no \<^verbatim>\<open>requestId\<close>; it closes no connection and does not exit. And the handler
  itself never throws, whatever the frame.
\<close>

theorem router_boundary:
  "thrown (route cid w (Malformed text)) = Some (SyntaxError text)
   \<and> (thrown (route cid w fr) = Some e \<longrightarrow>
        on_message cid w fr =
          finish [Send cid (error_reply (processing_error_prefix @ error_message w e)
                              Undefined Undefined)] []
        \<and> (\<forall>c. CloseConn c \<notin> set (effects (on_message cid w fr)))
        \<and> (\<forall>n. Exit n \<notin> set (effects (on_message cid w fr))))
   \<and> thrown (on_message cid w fr) = None"
proof (intro conjI impI)
  show "thrown (route cid w (Malformed text)) = Some (SyntaxError text)"
    by (simp add: route_def raise_def)
next
  assume t: "thrown (route cid w fr) = Some e"
  from route_thrown[OF t]
  show om: "on_message cid w fr =
          finish [Send cid (error_reply (processing_error_prefix @ error_message w e)
                              Undefined Undefined)] []"
    by (simp add: on_message_def try_catch_def raise_def finish_def)
  show "\<forall>c. CloseConn c \<notin> set (effects (on_message cid w fr))"
    by (simp add: om finish_def)
  show "\<forall>n. Exit n \<notin> set (effects (on_message cid w fr))"
    by (simp add: om finish_def)
next
  show "thrown (on_message cid w fr) = None"
    by (simp add: on_message_def try_catch_thrown_none thrown_finish)
qed

theorem router_boundary_witness:
  "on_message ''c1'' offline_world (Malformed ''Unexpected token h in JSON at position 0'') =
     finish [Send ''c1'' (error_reply
               (processing_error_prefix @ ''Unexpected token h in JSON at position 0'')
               Undefined Undefined)] []"
proof -
  have "thrown (route ''c1'' offline_world (Malformed ''Unexpected token h in JSON at position 0''))
          = Some (SyntaxError ''Unexpected token h in JSON at position 0'')"
    by (simp add: route_def raise_def)
  with router_boundary[of "''c1''" offline_world "''Unexpected token h in JSON at position 0''"
      "Malformed ''Unexpected token h in JSON at position 0''"
      "SyntaxError ''Unexpected token h in JSON at position 0''"]
  show ?thesis by simp
qed

text \<open>
  An unknown request type that has no string conversion throws in the \<^verbatim>\<open>default\<close> branch,
  while the reply is being built; the outer \<^verbatim>\<open>catch\<close> answers.
\<close>

lemma unknown_type_unconvertible:
  "on_message ''c1'' offline_world (Parsed (Obj [(''type'', unconvertible), (''requestId'', Str ''r9'')])) =
     finish [Send ''c1'' (error_reply
               (processing_error_prefix @ ''Cannot convert object to primitive value'')
               Undefined Undefined)] []"
  by (simp add: on_message_def route_def getp_def unconvertible_def handle_unknown_def template_def
      try_catch_def raise_def finish_def offline_world_def)

text \<open>
  Claim C6, at the input where the code departs from it. The frame
  \<^verbatim>\<open>{"type":"rvc-start-training","data":{"modelName":"m1","epochs":{"toString":1}},"requestId":"r7"}\<close>
  is answered with the training-started reply and starts the interval. One second later
  the interval's callback divides by \<open>epochs\<close>, the conversion of \<open>epochs\<close> to a number
  throws a \<^verbatim>\<open>TypeError\<close>, and no \<^verbatim>\<open>catch\<close> is around the callback: the exception is
  uncaught, no error reply is sent, and the process ends with every connection.
\<close>

theorem uncaught_exception_in_interval:
  "on_message ''c1'' offline_world (Parsed unconvertible_epochs_request) =
     finish [Send ''c1'' (started_reply offline_world unconvertible_epochs_request)]
            [Interval 1000 (new_job ''c1'' offline_world (own unconvertible_epochs_request ''data''))]
   \<and> run_interval offline_world 1
         (new_job ''c1'' offline_world (own unconvertible_epochs_request ''data'')) =
       ([Uncaught (TypeError (NotPrimitive unconvertible))], None)
   \<and> sends (fst (run_interval offline_world 1
         (new_job ''c1'' offline_world (own unconvertible_epochs_request ''data'')))) = []"
  by (simp add: on_message_def route_def getp_def unconvertible_epochs_request_def
      handle_training_def training_try_def destructure_def try_catch_def raise_def finish_def
      tick_def new_job_def unconvertible_def sends_def)

section \<open>Fallbacks of the synthesis backend\<close>

lemma sends_Nil: "sends [] = []"
  by (simp add: sends_def)

lemma sends_Send: "sends (Send c m # es) = m # sends es"
  by (simp add: sends_def)

lemma sends_Http: "sends (Http c r # es) = sends es"
  by (simp add: sends_def)

lemma sends_WriteFile: "sends (WriteFile p b r # es) = sends es"
  by (simp add: sends_def)

lemma sends_append: "sends (es @ fs) = sends es @ sends fs"
  by (simp add: sends_def)

lemmas sends_simps = sends_Nil sends_Send sends_Http sends_WriteFile sends_append

lemma backend_failed_Nil: "\<not> backend_failed []"
  by (simp add: backend_failed_def)

lemma backend_failed_Cons: "backend_failed (e # es) = (is_failed_call e \<or> backend_failed es)"
  by (simp add: backend_failed_def)

lemma synthesis_try_cases:
  assumes "\<not> nullish (own request ''data'')"
  shows "(\<exists>es e. synthesis_try cid w request = raise es e \<and> sends es = [])
    \<or> (\<exists>qc q sc s bytes. synthesis_try cid w request =
          finish [Http qc (Inr q), Http sc (Inr s), Send cid (synthesis_reply request bytes)] [])"
proof -
  define d where "d = own request ''data''"
  show ?thesis
  proof (cases "backend w (query_config w d)")
    case (Inl f)
    with assms have "synthesis_try cid w request = raise [Http (query_config w d) (Inl f)] (AxiosError f)"
      by (simp add: synthesis_try_def getp_def d_def Let_def)
    moreover have "sends [Http (query_config w d) (Inl f)] = []" by (simp add: sends_simps)
    ultimately show ?thesis by blast
  next
    case q: (Inr q)
    show ?thesis
    proof (cases "merge_params w (resp_data q) (own d ''params'')")
      case (Inl e)
      with assms q have "synthesis_try cid w request = raise [Http (query_config w d) (Inr q)] e"
        by (simp add: synthesis_try_def getp_def d_def Let_def)
      moreover have "sends [Http (query_config w d) (Inr q)] = []" by (simp add: sends_simps)
      ultimately show ?thesis by blast
    next
      case a: (Inr audioQuery)
      show ?thesis
      proof (cases "backend w (synthesis_config w d audioQuery)")
        case (Inl f)
        with assms q a have "synthesis_try cid w request =
            raise [Http (query_config w d) (Inr q), Http (synthesis_config w d audioQuery) (Inl f)]
              (AxiosError f)"
          by (simp add: synthesis_try_def getp_def d_def Let_def)
        moreover have "sends [Http (query_config w d) (Inr q),
            Http (synthesis_config w d audioQuery) (Inl f)] = []" by (simp add: sends_simps)
        ultimately show ?thesis by blast
      next
        case s: (Inr s)
        show ?thesis
        proof (cases "buffer_of w (resp_data s)")
          case (Inl e)
          with assms q a s have "synthesis_try cid w request =
              raise [Http (query_config w d) (Inr q), Http (synthesis_config w d audioQuery) (Inr s)] e"
            by (simp add: synthesis_try_def getp_def d_def Let_def)
          moreover have "sends [Http (query_config w d) (Inr q),
              Http (synthesis_config w d audioQuery) (Inr s)] = []" by (simp add: sends_simps)
          ultimately show ?thesis by blast
        next
          case (Inr bytes)
          with assms q a s have "synthesis_try cid w request =
              finish [Http (query_config w d) (Inr q), Http (synthesis_config w d audioQuery) (Inr s),
                      Send cid (synthesis_reply request bytes)] []"
            by (simp add: synthesis_try_def getp_def d_def Let_def)
          then show ?thesis by blast
        qed
      qed
    qed
  qed
qed

lemma synthesis_fallback:
  assumes "backend_failed (effects (handle_synthesis cid w request))"
  shows "sends (effects (handle_synthesis cid w request)) = [mock_synthesis_reply request]"
proof (cases "nullish (own request ''data'')")
  case True
  with assms synthesis_without_data[OF True, of cid w] show ?thesis
    by (simp add: raise_def backend_failed_Nil)
next
  case False
  from synthesis_try_cases[OF False, of cid w]
  consider (a) es e where "synthesis_try cid w request = raise es e" "sends es = []"
    | (b) qc q sc s bytes where "synthesis_try cid w request =
          finish [Http qc (Inr q), Http sc (Inr s), Send cid (synthesis_reply request bytes)] []"
    by blast
  then show ?thesis
  proof cases
    case a
    then show ?thesis
      by (simp add: handle_synthesis_def synthesis_catch_with_data[OF False] try_catch_def
          raise_def finish_def sends_simps)
  next
    case b
    with assms show ?thesis
      by (simp add: handle_synthesis_def try_catch_def finish_def backend_failed_Cons backend_failed_Nil)
  qed
qed

lemma speakers_backend_down:
  assumes "backend w (speakers_config w) = Inl f"
  shows "handle_speakers cid w request =
     finish [Http (speakers_config w) (Inl f),
             Send cid (reply ''voicevox-speakers-response'' mock_speakers (own request ''requestId''))] []"
  using assms by (simp add: handle_speakers_def Let_def try_catch_def raise_def finish_def)

lemma speakers_fallback:
  assumes "backend_failed (effects (handle_speakers cid w request))"
  shows "sends (effects (handle_speakers cid w request)) =
     [reply ''voicevox-speakers-response'' mock_speakers (own request ''requestId'')]"
proof (cases "backend w (speakers_config w)")
  case (Inl f)
  then show ?thesis
    by (simp add: handle_speakers_def Let_def try_catch_def raise_def finish_def sends_simps)
next
  case (Inr r)
  with assms show ?thesis
    by (simp add: handle_speakers_def Let_def try_catch_def raise_def finish_def
        backend_failed_Cons backend_failed_Nil)
qed

lemma synthesis_query_down:
  assumes "\<not> nullish (own request ''data'')"
    and "backend w (query_config w (own request ''data'')) = Inl f"
  shows "handle_synthesis cid w request =
     finish [Http (query_config w (own request ''data'')) (Inl f),
             Send cid (mock_synthesis_reply request)] []"
proof -
  from assms have "synthesis_try cid w request =
      raise [Http (query_config w (own request ''data'')) (Inl f)] (AxiosError f)"
    by (simp add: synthesis_try_def getp_def Let_def)
  then show ?thesis
    by (simp add: handle_synthesis_def synthesis_catch_with_data[OF assms(1)] try_catch_def
        raise_def finish_def)
qed

lemma synthesis_call_down:
  assumes "\<not> nullish (own request ''data'')"
    and "backend w (query_config w (own request ''data'')) = Inr q"
    and "merge_params w (resp_data q) (own (own request ''data'') ''params'') = Inr audioQuery"
    and "backend w (synthesis_config w (own request ''data'') audioQuery) = Inl f"
  shows "handle_synthesis cid w request =
     finish [Http (query_config w (own request ''data'')) (Inr q),
             Http (synthesis_config w (own request ''data'') audioQuery) (Inl f),
             Send cid (mock_synthesis_reply request)] []"
proof -
  from assms have "synthesis_try cid w request =
      raise [Http (query_config w (own request ''data'')) (Inr q),
             Http (synthesis_config w (own request ''data'') audioQuery) (Inl f)] (AxiosError f)"
    by (simp add: synthesis_try_def getp_def Let_def)
  then show ?thesis
    by (simp add: handle_synthesis_def synthesis_catch_with_data[OF assms(1)] try_catch_def
        raise_def finish_def)
qed

lemma synthesis_without_data_no_call:
  "nullish (own request ''data'') \<Longrightarrow> http_calls (effects (handle_synthesis cid w request)) = []"
  by (simp add: synthesis_without_data raise_def http_calls_def)

lemma on_message_finish_route:
  "route cid w fr = finish es ts \<Longrightarrow> on_message cid w fr = finish es ts"
  by (simp add: on_message_def try_catch_def finish_def)

lemma on_message_no_throw:
  "thrown (route cid w fr) = None \<Longrightarrow> on_message cid w fr = route cid w fr"
  by (simp add: on_message_def try_catch_def)

lemma on_message_effects_failed:
  "backend_failed (effects (on_message cid w fr)) \<Longrightarrow> on_message cid w fr = route cid w fr"
proof (cases "thrown (route cid w fr)")
  case None
  then show ?thesis by (rule on_message_no_throw)
next
  case (Some e)
  assume "backend_failed (effects (on_message cid w fr))"
  with route_thrown[OF Some] show ?thesis
    by (simp add: on_message_def try_catch_def raise_def finish_def backend_failed_Cons backend_failed_Nil)
qed

text \<open>
  Claim C3. For a list-voices request whose \<^verbatim>\<open>GET /speakers\<close> call fails, whatever the
  failure, the handler makes that one call and sends exactly one message, the speakers
  response with the built-in catalog. For a synthesize request with \<^verbatim>\<open>data\<close> whose
  \<^verbatim>\<open>POST /audio_query\<close> call fails, or whose \<^verbatim>\<open>POST /synthesis\<close> call fails after a
  successful query, the handler sends exactly one message, the synthesis response with
  the built-in silent WAV and \<^verbatim>\<open>mock: true\<close>. Both echo the \<^verbatim>\<open>requestId\<close>; neither is an
  error reply, and nothing else is done. The same read off the handler's effects: if any
  call made for such a request failed, that fallback is the only message sent. (A
  synthesize request without \<^verbatim>\<open>data\<close> throws before any call is made, so no call of it
  can fail.)
\<close>

theorem fallback_on_backend_failure:
  "(getp request ''type'' = Inr (Str ''voicevox-speakers'')
      \<and> backend w (speakers_config w) = Inl f \<longrightarrow>
    on_message cid w (Parsed request) =
      finish [Http (speakers_config w) (Inl f),
              Send cid (reply ''voicevox-speakers-response'' mock_speakers
                         (own request ''requestId''))] [])
   \<and> (getp request ''type'' = Inr (Str ''voicevox-synthesis'')
      \<and> \<not> nullish (own request ''data'')
      \<and> backend w (query_config w (own request ''data'')) = Inl f \<longrightarrow>
    on_message cid w (Parsed request) =
      finish [Http (query_config w (own request ''data'')) (Inl f),
              Send cid (mock_synthesis_reply request)] [])
   \<and> (getp request ''type'' = Inr (Str ''voicevox-synthesis'')
      \<and> \<not> nullish (own request ''data'')
      \<and> backend w (query_config w (own request ''data'')) = Inr q
      \<and> merge_params w (resp_data q) (own (own request ''data'') ''params'') = Inr audioQuery
      \<and> backend w (synthesis_config w (own request ''data'') audioQuery) = Inl f \<longrightarrow>
    on_message cid w (Parsed request) =
      finish [Http (query_config w (own request ''data'')) (Inr q),
              Http (synthesis_config w (own request ''data'') audioQuery) (Inl f),
              Send cid (mock_synthesis_reply request)] [])
   \<and> (getp request ''type'' = Inr (Str ''voicevox-speakers'')
      \<and> backend_failed (effects (on_message cid w (Parsed request))) \<longrightarrow>
    sends (effects (on_message cid w (Parsed request))) =
      [reply ''voicevox-speakers-response'' mock_speakers (own request ''requestId'')])
   \<and> (getp request ''type'' = Inr (Str ''voicevox-synthesis'')
      \<and> backend_failed (effects (on_message cid w (Parsed request))) \<longrightarrow>
    sends (effects (on_message cid w (Parsed request))) = [mock_synthesis_reply request])
   \<and> mtype (mock_synthesis_reply request) = ''voicevox-synthesis-response''
   \<and> own (mdata (mock_synthesis_reply request)) ''audio'' = Str (''data:audio/wav;base64,'' @ mockWav)
   \<and> own (mdata (mock_synthesis_reply request)) ''mock'' = Bool True
   \<and> requestId (mock_synthesis_reply request) = own request ''requestId''"
proof (intro conjI impI)
  assume a: "getp request ''type'' = Inr (Str ''voicevox-speakers'')
      \<and> backend w (speakers_config w) = Inl f"
  then have "route cid w (Parsed request) = handle_speakers cid w request"
    by (simp add: route_def)
  with a speakers_backend_down[of w f cid request]
  show "on_message cid w (Parsed request) =
      finish [Http (speakers_config w) (Inl f),
              Send cid (reply ''voicevox-speakers-response'' mock_speakers
                         (own request ''requestId''))] []"
    by (simp add: on_message_finish_route)
next
  assume a: "getp request ''type'' = Inr (Str ''voicevox-synthesis'')
      \<and> \<not> nullish (own request ''data'')
      \<and> backend w (query_config w (own request ''data'')) = Inl f"
  then have "route cid w (Parsed request) = handle_synthesis cid w request"
    by (simp add: route_def)
  with a synthesis_query_down[of request w f cid]
  show "on_message cid w (Parsed request) =
      finish [Http (query_config w (own request ''data'')) (Inl f),
              Send cid (mock_synthesis_reply request)] []"
    by (simp add: on_message_finish_route)
next
  assume a: "getp request ''type'' = Inr (Str ''voicevox-synthesis'')
      \<and> \<not> nullish (own request ''data'')
      \<and> backend w (query_config w (own request ''data'')) = Inr q
      \<and> merge_params w (resp_data q) (own (own request ''data'') ''params'') = Inr audioQuery
      \<and> backend w (synthesis_config w (own request ''data'') audioQuery) = Inl f"
  then have "route cid w (Parsed request) = handle_synthesis cid w request"
    by (simp add: route_def)
  with a synthesis_call_down[of request w q audioQuery f cid]
  show "on_message cid w (Parsed request) =
      finish [Http (query_config w (own request ''data'')) (Inr q),
              Http (synthesis_config w (own request ''data'') audioQuery) (Inl f),
              Send cid (mock_synthesis_reply request)] []"
    by (simp add: on_message_finish_route)
next
  assume a: "getp request ''type'' = Inr (Str ''voicevox-speakers'')
      \<and> backend_failed (effects (on_message cid w (Parsed request)))"
  with on_message_effects_failed[of cid w "Parsed request"]
  have eq: "on_message cid w (Parsed request) = handle_speakers cid w request"
    by (simp add: route_def)
  with a speakers_fallback[of cid w request]
  show "sends (effects (on_message cid w (Parsed request))) =
      [reply ''voicevox-speakers-response'' mock_speakers (own request ''requestId'')]"
    by simp
next
  assume a: "getp request ''type'' = Inr (Str ''voicevox-synthesis'')
      \<and> backend_failed (effects (on_message cid w (Parsed request)))"
  with on_message_effects_failed[of cid w "Parsed request"]
  have eq: "on_message cid w (Parsed request) = handle_synthesis cid w request"
    by (simp add: route_def)
  with a synthesis_fallback[of cid w request]
  show "sends (effects (on_message cid w (Parsed request))) = [mock_synthesis_reply request]"
    by simp
qed (simp_all add: mock_synthesis_reply_def reply_def)

theorem fallback_on_backend_failure_witness:
  "on_message ''c1'' offline_world (Parsed speakers_request) =
     finish [Http (axios_get ''http://localhost:50021/speakers'' None) (Inl refused),
             Send ''c1'' (reply ''voicevox-speakers-response'' mock_speakers (Str ''r8''))] []
   \<and> on_message ''c1'' offline_world (Parsed synthesis_request) =
     finish [Http (axios_post ''http://localhost:50021/audio_query'' Null
                    (Obj [(''text'', Str konnichiwa), (''speaker'', Num 3)]) None) (Inl refused),
             Send ''c1'' (reply ''voicevox-synthesis-response''
               (Obj [(''audio'', Str (''data:audio/wav;base64,'' @ mockWav)),
                     (''text'', Str konnichiwa), (''speaker_id'', Num 3), (''mock'', Bool True)])
               (Str ''r1''))] []"
proof -
  have b: "\<And>cfg. backend offline_world cfg = Inl refused"
    by (simp add: offline_world_def)
  have v: "VOICEVOX_URL offline_world = ''http://localhost:50021''"
    by (simp add: offline_world_def)
  have sc: "speakers_config offline_world = axios_get ''http://localhost:50021/speakers'' None"
    by (simp add: speakers_config_def v)
  have qc: "query_config offline_world (own synthesis_request ''data'') =
      axios_post ''http://localhost:50021/audio_query'' Null
        (Obj [(''text'', Str konnichiwa), (''speaker'', Num 3)]) None"
    by (simp add: query_config_def v synthesis_request_def speaker_of_def js_or_def)
  have t1: "getp speakers_request ''type'' = Inr (Str ''voicevox-speakers'')"
    by (simp add: speakers_request_def getp_def)
  have t2: "getp synthesis_request ''type'' = Inr (Str ''voicevox-synthesis'')"
    by (simp add: synthesis_request_def getp_def)
  have d: "\<not> nullish (own synthesis_request ''data'')"
    by (simp add: synthesis_request_def)
  note th = fallback_on_backend_failure[where w = offline_world and cid = "''c1''" and f = refused]
  from th[where request = speakers_request] t1 b
  have "on_message ''c1'' offline_world (Parsed speakers_request) =
      finish [Http (speakers_config offline_world) (Inl refused),
              Send ''c1'' (reply ''voicevox-speakers-response'' mock_speakers
                         (own speakers_request ''requestId''))] []"
    by blast
  note s1 = this[unfolded sc]
  from th[where request = synthesis_request] t2 d b
  have "on_message ''c1'' offline_world (Parsed synthesis_request) =
      finish [Http (query_config offline_world (own synthesis_request ''data'')) (Inl refused),
              Send ''c1'' (mock_synthesis_reply synthesis_request)] []"
    by blast
  note s2 = this[unfolded qc]
  have r1: "own speakers_request ''requestId'' = Str ''r8''"
    by (simp add: speakers_request_def)
  have r2: "mock_synthesis_reply synthesis_request =
      reply ''voicevox-synthesis-response''
        (Obj [(''audio'', Str (''data:audio/wav;base64,'' @ mockWav)),
              (''text'', Str konnichiwa), (''speaker_id'', Num 3), (''mock'', Bool True)])
        (Str ''r1'')"
    by (simp add: mock_synthesis_reply_def synthesis_request_def)
  from s1 s2 show ?thesis by (simp only: r1 r2 simp_thms)
qed

text \<open>
  Claim C7, at the input where the code departs from it. A synthesize request that has a
  \<^verbatim>\<open>requestId\<close> but no \<^verbatim>\<open>data\<close> throws in the handler's \<^verbatim>\<open>try\<close> block and again in
  its \<^verbatim>\<open>catch\<close> block, which reads \<^verbatim>\<open>request.data.text\<close> before it sends; the only reply
  is the outer \<^verbatim>\<open>catch\<close>'s error reply, which carries no \<^verbatim>\<open>requestId\<close>.
\<close>

theorem synthesis_without_data_reply:
  "on_message ''c1'' offline_world (Parsed synthesis_without_data) =
     finish [Send ''c1'' (error_reply
               (processing_error_prefix @ v8_message (ReadOfNullish Undefined ''text''))
               Undefined Undefined)] []
   \<and> own synthesis_without_data ''requestId'' = Str ''r1''
   \<and> map requestId (sends (effects (on_message ''c1'' offline_world (Parsed synthesis_without_data))))
       = [Undefined]"
  by (simp add: on_message_def route_def getp_def synthesis_without_data_def handle_synthesis_def
      synthesis_try_def synthesis_catch_def try_catch_def raise_def finish_def error_reply_def
      offline_world_def sends_def)

section \<open>The training simulation\<close>

lemma progress_message_epoch [simp]:
  "progress_message w (j\<lparr>job_currentEpoch := c\<rparr>) x = progress_message w j x"
  by (simp add: progress_message_def)

lemma complete_message_epoch [simp]:
  "complete_message w (j\<lparr>job_currentEpoch := c\<rparr>) = complete_message w j"
  by (simp add: complete_message_def)

lemma plus_ten_exact: "0 \<le> c \<Longrightarrow> c + 10 \<le> 2 ^ 53 \<Longrightarrow> plus_ten w c = c + 10"
  by (simp add: plus_ten_def)

lemma tick_done:
  assumes "job_epochs j = Num e"
    and "0 \<le> job_currentEpoch j" and "job_currentEpoch j + 10 \<le> 2 ^ 53"
    and "e \<le> of_int (job_currentEpoch j + 10)"
  shows "tick w j = ([Send (job_client j) (progress_message w j (job_currentEpoch j + 10)),
                Send (job_client j) (complete_message w j)], None)"
  using assms(1,4) by (simp add: tick_def Let_def plus_ten_exact[OF assms(2,3)])

lemma tick_more:
  assumes "job_epochs j = Num e"
    and "0 \<le> job_currentEpoch j" and "job_currentEpoch j + 10 \<le> 2 ^ 53"
    and "of_int (job_currentEpoch j + 10) < e"
  shows "tick w j = ([Send (job_client j) (progress_message w j (job_currentEpoch j + 10))],
               Some (j\<lparr>job_currentEpoch := job_currentEpoch j + 10\<rparr>))"
  using assms(1,4) by (simp add: tick_def Let_def plus_ten_exact[OF assms(2,3)])

lemma upt_shift: "[0..<Suc (Suc m)] = 0 # map Suc [0..<Suc m]"
  unfolding map_Suc_upt by (rule upt_conv_Cons) simp

lemma run_interval_num:
  assumes "job_epochs j = Num e"
    and "0 \<le> job_currentEpoch j"
    and "job_currentEpoch j + 10 * int (Suc m) \<le> 2 ^ 53"
    and "\<forall>i. 1 \<le> i \<and> i \<le> m \<longrightarrow> of_int (job_currentEpoch j + 10 * int i) < e"
    and "e \<le> of_int (job_currentEpoch j + 10 * int (Suc m))"
    and "Suc m \<le> n"
  shows "run_interval w n j =
     (map (\<lambda>i. Send (job_client j) (progress_message w j (job_currentEpoch j + 10 * int (Suc i))))
        [0..<Suc m]
      @ [Send (job_client j) (complete_message w j)], None)"
  using assms
proof (induction m arbitrary: j n)
  case 0
  then obtain n' where n: "n = Suc n'" by (cases n) auto
  from 0 have "e \<le> of_int (job_currentEpoch j + 10)" by simp
  moreover from 0 have "job_currentEpoch j + 10 \<le> 2 ^ 53" by simp
  ultimately show ?case using 0(1,2) by (simp add: n tick_done)
next
  case (Suc m)
  then obtain n' where n: "n = Suc n'" by (cases n) auto
  let ?j = "j\<lparr>job_currentEpoch := job_currentEpoch j + 10\<rparr>"
  have lt: "of_int (job_currentEpoch j + 10) < e"
    using Suc.prems(4)[rule_format, of 1] by simp
  have le: "job_currentEpoch j + 10 \<le> 2 ^ 53"
    using Suc.prems(3) by simp
  have t: "tick w j = ([Send (job_client j) (progress_message w j (job_currentEpoch j + 10))], Some ?j)"
    using Suc.prems(1,2) le lt by (rule tick_more)
  have a1: "job_epochs ?j = Num e" using Suc.prems(1) by simp
  have a2: "0 \<le> job_currentEpoch ?j" using Suc.prems(2) by simp
  have a3: "job_currentEpoch ?j + 10 * int (Suc m) \<le> 2 ^ 53"
    using Suc.prems(3) by simp
  have a4: "\<forall>i. 1 \<le> i \<and> i \<le> m \<longrightarrow> of_int (job_currentEpoch ?j + 10 * int i) < e"
  proof (intro allI impI)
    fix i assume "1 \<le> i \<and> i \<le> m"
    then have "1 \<le> Suc i \<and> Suc i \<le> Suc m" by simp
    with Suc.prems(4) have "of_int (job_currentEpoch j + 10 * int (Suc i)) < e" by blast
    moreover have "job_currentEpoch ?j + 10 * int i = job_currentEpoch j + 10 * int (Suc i)"
      by simp
    ultimately show "of_int (job_currentEpoch ?j + 10 * int i) < e" by simp
  qed
  have a5: "e \<le> of_int (job_currentEpoch ?j + 10 * int (Suc m))"
  proof -
    have "job_currentEpoch ?j + 10 * int (Suc m) = job_currentEpoch j + 10 * int (Suc (Suc m))"
      by simp
    with Suc.prems(5) show ?thesis by simp
  qed
  have a6: "Suc m \<le> n'" using Suc.prems(6) n by simp
  note ih = Suc.IH[OF a1 a2 a3 a4 a5 a6]
  have shift: "\<And>i. job_currentEpoch j + 10 + 10 * (1 + int i) = job_currentEpoch j + 10 * (1 + (1 + int i))"
    by (simp add: algebra_simps)
  show ?case
    unfolding n run_interval.simps t
    by (simp add: ih upt_shift [of m] comp_def shift add.assoc add.left_commute del: upt_Suc)
qed

text \<open>
  With \<^verbatim>\<open>epochs\<close> infinite (JSON \<^verbatim>\<open>1e400\<close> parses to \<^verbatim>\<open>Infinity\<close>) the interval is never
  cleared: after any number of periods the job is still there.
\<close>

lemma infinite_epochs_never_complete:
  "job_epochs j = PosInfinity \<Longrightarrow>
   \<exists>j'. snd (run_interval w n j) = Some j' \<and> job_epochs j' = PosInfinity"
proof (induction n arbitrary: j)
  case 0
  then show ?case by simp
next
  case (Suc n)
  let ?j = "j\<lparr>job_currentEpoch := plus_ten w (job_currentEpoch j)\<rparr>"
  from Suc.prems have t: "tick w j =
      ([Send (job_client j) (progress_message w j (plus_ten w (job_currentEpoch j)))], Some ?j)"
    by (simp add: tick_def Let_def)
  from Suc.prems have "job_epochs ?j = PosInfinity" by simp
  from Suc.IH[OF this] show ?case by (simp add: t)
qed

lemma own_not_nullish: "own d k = Num e \<Longrightarrow> \<not> nullish d"
  by (cases d) auto

lemma training_with_data:
  "\<not> nullish (own request ''data'') \<Longrightarrow>
   handle_training cid w request =
     finish [Send cid (started_reply w request)] [Interval 1000 (new_job cid w (own request ''data''))]"
  by (simp add: handle_training_def training_try_def destructure_def Let_def try_catch_finish)

lemma training_started:
  assumes "getp request ''type'' = Inr (Str ''rvc-start-training'')"
    and "own (own request ''data'') ''epochs'' = Num e"
  shows "on_message cid w (Parsed request) =
     finish [Send cid (started_reply w request)] [Interval 1000 (new_job cid w (own request ''data''))]"
  using assms(1) training_with_data[OF own_not_nullish[OF assms(2)], of cid w]
  by (simp add: route_typed on_message_finish)

lemma progress_epochs_run:
  "progress_epochs (map (\<lambda>i. Send c (progress_message w j (f i))) xs @ [Send c (complete_message w j)])
     = map (\<lambda>i. Num (of_int (f i))) xs"
  by (induction xs)
     (simp_all add: progress_epochs_def sends_simps progress_message_def complete_message_def reply_def)

lemma ceiling_tenth:
  fixes e :: rat
  assumes "0 < e"
  shows "e \<le> 10 * of_nat (nat \<lceil>e / 10\<rceil>)" and "10 * of_nat (nat \<lceil>e / 10\<rceil>) < e + 10"
    and "0 < nat \<lceil>e / 10\<rceil>"
proof -
  from assms have pos: "0 < \<lceil>e / 10\<rceil>" by simp
  then have eq: "(of_nat (nat \<lceil>e / 10\<rceil>) :: rat) = of_int \<lceil>e / 10\<rceil>" by simp
  have "e / 10 \<le> of_int \<lceil>e / 10\<rceil>" by (rule le_of_int_ceiling)
  then show "e \<le> 10 * of_nat (nat \<lceil>e / 10\<rceil>)" unfolding eq by linarith
  have "of_int \<lceil>e / 10\<rceil> < e / 10 + 1" using ceiling_correct[of "e / 10"] by linarith
  then show "10 * of_nat (nat \<lceil>e / 10\<rceil>) < e + 10" unfolding eq by linarith
  from pos show "0 < nat \<lceil>e / 10\<rceil>" by simp
qed

lemma training_request_type: "getp (training_request e) ''type'' = Inr (Str ''rvc-start-training'')"
  by (simp add: training_request_def getp_def)

lemma training_request_epochs: "own (own (training_request e) ''data'') ''epochs'' = Num e"
  by (simp add: training_request_def)

lemma training_request_job:
  "new_job ''c1'' offline_world (own (training_request e) ''data'') = training_job e"
  by (simp add: training_request_def new_job_def training_job_def offline_world_def)

text \<open>
  Claim C2, as amended. A start-training request with a number of epochs \<open>e\<close>,
  \<open>0 < e \<le> 2^53 - 10\<close>, is answered by the training-started reply and starts the
  interval. With \<open>k = \<lceil>e / 10\<rceil>\<close>, over any \<open>n \<ge> k\<close> periods the interval sends \<open>k\<close>
  training-progress pushes whose \<^verbatim>\<open>currentEpoch\<close> values are 10, 20, ..., \<open>10 k\<close>, then
  exactly one training-complete push, and is cleared, so nothing follows. The last value
  \<open>10 k\<close> is the least multiple of 10 that is at least \<open>e\<close>: it is not clamped to \<open>e\<close>.
  The bound keeps every sum \<^verbatim>\<open>currentEpoch += 10\<close> exact.
\<close>

theorem training_progress:
  assumes "getp request ''type'' = Inr (Str ''rvc-start-training'')"
    and "own (own request ''data'') ''epochs'' = Num e"
    and "0 < e"
    and "e \<le> 2 ^ 53 - 10"
    and "nat \<lceil>e / 10\<rceil> \<le> n"
  shows "on_message cid w (Parsed request) =
       finish [Send cid (started_reply w request)]
              [Interval 1000 (new_job cid w (own request ''data''))]
    \<and> run_interval w n (new_job cid w (own request ''data'')) =
       (map (\<lambda>i. Send cid (progress_message w (new_job cid w (own request ''data''))
                              (10 * int (Suc i))))
          [0..<nat \<lceil>e / 10\<rceil>]
        @ [Send cid (complete_message w (new_job cid w (own request ''data'')))], None)
    \<and> progress_epochs (fst (run_interval w n (new_job cid w (own request ''data'')))) =
       map (\<lambda>i. Num (10 * of_nat (Suc i))) [0..<nat \<lceil>e / 10\<rceil>]
    \<and> e \<le> 10 * of_nat (nat \<lceil>e / 10\<rceil>)
    \<and> 10 * of_nat (nat \<lceil>e / 10\<rceil>) < e + 10"
proof -
  let ?j = "new_job cid w (own request ''data'')"
  let ?k = "nat \<lceil>e / 10\<rceil>"
  from ceiling_tenth[OF assms(3)] obtain m where k: "?k = Suc m"
    by (cases ?k) auto
  have j1: "job_epochs ?j = Num e" using assms(2) by (simp add: new_job_def)
  have j0: "job_currentEpoch ?j = 0" by (simp add: new_job_def)
  have jc: "job_client ?j = cid" by (simp add: new_job_def)
  have c0: "0 \<le> job_currentEpoch ?j" by (simp add: j0)
  have "(of_int (10 * int ?k) :: rat) < 2 ^ 53"
    using ceiling_tenth(2)[OF assms(3)] assms(4) by simp
  also have "(2 ^ 53 :: rat) = of_int (2 ^ 53)" by simp
  finally have "10 * int ?k < 2 ^ 53" by (simp only: of_int_less_iff)
  then have cb: "job_currentEpoch ?j + 10 * int (Suc m) \<le> 2 ^ 53"
    unfolding j0 k by simp
  have c1: "\<forall>i. 1 \<le> i \<and> i \<le> m \<longrightarrow> of_int (job_currentEpoch ?j + 10 * int i) < e"
  proof (intro allI impI)
    fix i :: nat assume "1 \<le> i \<and> i \<le> m"
    then have "(of_nat i :: rat) + 1 \<le> of_nat ?k" unfolding k by simp
    with ceiling_tenth(2)[OF assms(3)] have "10 * (of_nat i :: rat) < e" by linarith
    then show "of_int (job_currentEpoch ?j + 10 * int i) < e"
      unfolding j0 by simp
  qed
  have c2: "e \<le> of_int (job_currentEpoch ?j + 10 * int (Suc m))"
    using ceiling_tenth(1)[OF assms(3)] unfolding j0 k by simp
  have c3: "Suc m \<le> n" using assms(5) k by simp
  have run: "run_interval w n ?j =
       (map (\<lambda>i. Send cid (progress_message w ?j (10 * int (Suc i)))) [0..<?k]
        @ [Send cid (complete_message w ?j)], None)"
    using run_interval_num[OF j1 c0 cb c1 c2 c3, of w] unfolding j0 jc k by simp
  have conv: "(\<lambda>i. Num (of_int (10 * int (Suc i)))) = (\<lambda>i. Num (10 * of_nat (Suc i)))"
    by (rule ext) simp
  show ?thesis
    using training_started[OF assms(1,2), of cid w] ceiling_tenth(1,2)[OF assms(3)]
    by (simp only: run fst_conv progress_epochs_run conv simp_thms)
qed

theorem training_progress_witness:
  "progress_epochs (fst (run_interval offline_world 2 (training_job 20))) = [Num 10, Num 20]
   \<and> snd (run_interval offline_world 2 (training_job 20)) = None"
proof -
  have pos: "(0 :: rat) < 20" by simp
  have bound: "(20 :: rat) \<le> 2 ^ 53 - 10" by simp
  have k: "nat \<lceil>(20 :: rat) / 10\<rceil> = 2" by simp
  then have le: "nat \<lceil>(20 :: rat) / 10\<rceil> \<le> 2" by simp
  have m: "map (\<lambda>i. Num (10 * of_nat (Suc i))) [0..<2] = [Num 10, Num 20]"
    by (simp add: numeral_2_eq_2)
  note t = training_progress[OF training_request_type training_request_epochs pos bound le,
      of "''c1''" offline_world, unfolded training_request_job k]
  from t have a: "progress_epochs (fst (run_interval offline_world 2 (training_job 20))) =
          map (\<lambda>i. Num (10 * of_nat (Suc i))) [0..<2]"
    by blast
  from t have "\<exists>es. run_interval offline_world 2 (training_job 20) = (es, None)"
    by blast
  then have b: "snd (run_interval offline_world 2 (training_job 20)) = None"
    by auto
  from a b show ?thesis by (simp only: m simp_thms)
qed

text \<open>
  The claim as it was stated fails for 15 epochs: the pushes carry 10 and 20, and 20
  exceeds 15.
\<close>

theorem progress_overshoots_epochs:
  "on_message ''c1'' offline_world (Parsed (training_request 15)) =
     finish [Send ''c1'' (started_reply offline_world (training_request 15))]
            [Interval 1000 (training_job 15)]
   \<and> progress_epochs (fst (run_interval offline_world 2 (training_job 15))) = [Num 10, Num 20]
   \<and> snd (run_interval offline_world 2 (training_job 15)) = None
   \<and> (20 :: rat) \<noteq> 15 \<and> (15 :: rat) < 20"
  by (simp add: on_message_def route_def getp_def training_request_def handle_training_def
      training_try_def destructure_def try_catch_def finish_def new_job_def training_job_def
      offline_world_def started_reply_def reply_def tick_def plus_ten_def sends_simps numeral_2_eq_2
      progress_epochs_def progress_message_def complete_message_def)

text \<open>
  Claim C1, as amended. A start-training request with a number of epochs \<open>e \<le> 0\<close> is
  treated like any other: the reply is the training-started reply, echoing the
  \<^verbatim>\<open>requestId\<close>, the interval is started, and its first firing sends one
  training-progress push with \<^verbatim>\<open>currentEpoch\<close> 10 and one training-complete push and
  clears the interval.
\<close>

theorem training_nonpositive_epochs:
  assumes "getp request ''type'' = Inr (Str ''rvc-start-training'')"
    and "own (own request ''data'') ''epochs'' = Num e"
    and "e \<le> 0"
  shows "on_message cid w (Parsed request) =
       finish [Send cid (started_reply w request)]
              [Interval 1000 (new_job cid w (own request ''data''))]
    \<and> mtype (started_reply w request) = ''rvc-training-started''
    \<and> requestId (started_reply w request) = own request ''requestId''
    \<and> run_interval w (Suc n) (new_job cid w (own request ''data'')) =
       ([Send cid (progress_message w (new_job cid w (own request ''data'')) 10),
         Send cid (complete_message w (new_job cid w (own request ''data'')))], None)"
proof -
  let ?j = "new_job cid w (own request ''data'')"
  have j1: "job_epochs ?j = Num e" using assms(2) by (simp add: new_job_def)
  have j0: "job_currentEpoch ?j = 0" by (simp add: new_job_def)
  have jc: "job_client ?j = cid" by (simp add: new_job_def)
  have c0: "0 \<le> job_currentEpoch ?j" by (simp add: j0)
  have cb: "job_currentEpoch ?j + 10 \<le> 2 ^ 53" by (simp add: j0)
  have "e \<le> of_int (job_currentEpoch ?j + 10)" using assms(3) j0 by simp
  from tick_done[OF j1 c0 cb this, of w] have "run_interval w (Suc n) ?j =
       ([Send cid (progress_message w ?j 10), Send cid (complete_message w ?j)], None)"
    by (simp add: j0 jc)
  with training_started[OF assms(1,2), of cid w] show ?thesis
    by (simp add: started_reply_def reply_def)
qed

theorem training_nonpositive_epochs_witness:
  "run_interval offline_world 3 (training_job (- 5)) =
     ([Send ''c1'' (progress_message offline_world (training_job (- 5)) 10),
       Send ''c1'' (complete_message offline_world (training_job (- 5)))], None)"
proof -
  have le: "(- 5 :: rat) \<le> 0" by simp
  from training_nonpositive_epochs[OF training_request_type training_request_epochs le,
      of "''c1''" offline_world 2]
  show ?thesis by (simp add: training_request_job numeral_3_eq_3)
qed

text \<open>
  The claim as it was stated fails for 0 epochs: the reply is not an error reply, a job is
  created, and both pushes follow.
\<close>

theorem nonpositive_epochs_start_training:
  "on_message ''c1'' offline_world (Parsed (training_request 0)) =
     finish [Send ''c1'' (started_reply offline_world (training_request 0))]
            [Interval 1000 (training_job 0)]
   \<and> mtype (started_reply offline_world (training_request 0)) = ''rvc-training-started''
   \<and> map mtype (sends (fst (run_interval offline_world 1 (training_job 0)))) =
       [''rvc-training-progress'', ''rvc-training-complete'']"
  by (simp add: on_message_def route_def getp_def training_request_def handle_training_def
      training_try_def destructure_def try_catch_def finish_def new_job_def training_job_def
      offline_world_def started_reply_def reply_def tick_def plus_ten_def sends_simps
      progress_message_def complete_message_def)

section \<open>Uploads\<close>

lemma own_Str_not_nullish: "own d k = Str s \<Longrightarrow> \<not> nullish d"
  by (cases d) auto

lemma upload_try_data_uri:
  assumes "own (own request ''data'') ''fileData'' = Str (prefix @ CHR '','' # b64encode bytes)"
    and "CHR '','' \<notin> set prefix"
    and "template w (own (own request ''data'') ''fileName'') = Inr name"
  shows "upload_try cid w request =
     (case writeFile w (upload_path w name) bytes of
        Some m \<Rightarrow> raise [WriteFile (upload_path w name) bytes (Some m)] (IOError m)
      | None \<Rightarrow>
          finish [WriteFile (upload_path w name) bytes None,
                  Send cid (upload_reply w request (upload_path w name))]
                 [Timeout 2000 cid (own (own request ''data'') ''fileName'')])"
  using own_Str_not_nullish[OF assms(1)] assms
  by (simp add: upload_try_def Let_def destructure_def split_data_uri [unfolded One_nat_def]
      b64_canonical b64_roundtrip)

text \<open>
  An upload whose \<^verbatim>\<open>fileName\<close> has no string conversion throws while the path is built,
  before anything is written; the handler's \<^verbatim>\<open>catch\<close> answers with an error reply.
\<close>

lemma upload_unconvertible_name:
  assumes "getp request ''type'' = Inr (Str ''rvc-upload-training-data'')"
    and "\<not> nullish (own request ''data'')"
    and "template w (own (own request ''data'') ''fileName'') = Inl e"
  shows "on_message cid w (Parsed request) =
     finish [Send cid (error_reply (upload_error_prefix @ error_message w e) Undefined
                         (own request ''requestId''))] []"
proof -
  have om: "on_message cid w (Parsed request) = handle_upload cid w request"
    using assms(1) by (simp add: on_message_no_throw route_typed handle_upload_thrown)
  from assms(2,3) have "upload_try cid w request = raise [] e"
    by (simp add: upload_try_def Let_def destructure_def)
  then show ?thesis
    by (simp add: om handle_upload_def try_catch_def raise_def finish_def)
qed

text \<open>
  Claim C8, as amended. For an upload whose \<^verbatim>\<open>fileName\<close> converts to a string \<open>name\<close> (every string,
  number, boolean, \<^verbatim>\<open>null\<close> or absent name does) and whose \<^verbatim>\<open>fileData\<close> is a data URI, a
  prefix without a comma, a comma, and the Base64 encoding of some bytes: the handler
  first writes exactly these bytes to the upload path made from \<open>name\<close> and then, if the
  write succeeded, sends the upload response (status \<^verbatim>\<open>processing\<close>, carrying that path
  and the \<^verbatim>\<open>requestId\<close>), and what has been written at the path is exactly the original
  bytes. If the write fails, no upload response is sent but an error reply.
\<close>

theorem upload_round_trip:
  assumes "getp request ''type'' = Inr (Str ''rvc-upload-training-data'')"
    and "own (own request ''data'') ''fileData'' = Str (prefix @ CHR '','' # b64encode bytes)"
    and "CHR '','' \<notin> set prefix"
    and "template w (own (own request ''data'') ''fileName'') = Inr name"
  shows "(case writeFile w (upload_path w name) bytes of
        None \<Rightarrow>
          on_message cid w (Parsed request) =
            finish [WriteFile (upload_path w name) bytes None,
                    Send cid (upload_reply w request (upload_path w name))]
                   [Timeout 2000 cid (own (own request ''data'') ''fileName'')]
          \<and> written (effects (on_message cid w (Parsed request))) (upload_path w name) = Some bytes
      | Some m \<Rightarrow>
          on_message cid w (Parsed request) =
            finish [WriteFile (upload_path w name) bytes (Some m),
                    Send cid (error_reply (upload_error_prefix @ m) Undefined
                                (own request ''requestId''))] [])
     \<and> mtype (upload_reply w request (upload_path w name)) = ''rvc-upload-response''
     \<and> own (mdata (upload_reply w request (upload_path w name))) ''status'' = Str ''processing''
     \<and> own (mdata (upload_reply w request (upload_path w name))) ''filePath'' = Str (upload_path w name)
     \<and> requestId (upload_reply w request (upload_path w name)) = own request ''requestId''"
proof -
  have om: "on_message cid w (Parsed request) = handle_upload cid w request"
    using assms(1) by (simp add: on_message_no_throw route_typed handle_upload_thrown)
  show ?thesis
  proof (cases "writeFile w (upload_path w name) bytes")
    case None
    then show ?thesis
      by (simp add: om handle_upload_def upload_try_data_uri[OF assms(2,3,4)] try_catch_def finish_def
          upload_reply_def reply_def)
  next
    case (Some m)
    then show ?thesis
      by (simp add: om handle_upload_def upload_try_data_uri[OF assms(2,3,4)] try_catch_def finish_def
          raise_def upload_reply_def reply_def)
  qed
qed

theorem upload_round_trip_witness:
  "written (effects (on_message ''c1'' offline_world (Parsed upload_request)))
     ''/opt/bridge/uploads/uuid-a_a.wav'' = Some [1, 2, 3, 255]
   \<and> map mtype (sends (effects (on_message ''c1'' offline_world (Parsed upload_request)))) =
       [''rvc-upload-response'']"
proof -
  have t: "getp upload_request ''type'' = Inr (Str ''rvc-upload-training-data'')"
    by (simp add: upload_request_def getp_def)
  have d: "own (own upload_request ''data'') ''fileData'' =
      Str (''data:audio/wav;base64'' @ CHR '','' # b64encode [1, 2, 3, 255])"
    by (simp add: upload_request_def)
  have c: "CHR '','' \<notin> set ''data:audio/wav;base64''" by simp
  have n: "template offline_world (own (own upload_request ''data'') ''fileName'') = Inr ''a.wav''"
    by (simp add: upload_request_def template_def)
  have p: "upload_path offline_world ''a.wav'' = ''/opt/bridge/uploads/uuid-a_a.wav''"
    by (simp add: upload_path_def offline_world_def)
  have wr: "\<And>path bs. writeFile offline_world path bs = None"
    by (simp add: offline_world_def)
  from upload_round_trip[OF t d c n, where cid = "''c1''"] show ?thesis
    by (simp add: p wr finish_def sends_simps upload_reply_def reply_def)
qed

text \<open>
  The claim as it was stated fails for the upload
  \<^verbatim>\<open>{"fileName":{"toString":1},"fileData":"data:audio/wav;base64,AQID/w==","fileSize":4}\<close>:
  its payload is a well-formed data URI of 4 bytes, yet nothing is written and the only
  message is an error reply.
\<close>

theorem unconvertible_name_not_written:
  "own (own upload_unconvertible_name ''data'') ''fileData'' =
     Str (''data:audio/wav;base64'' @ CHR '','' # b64encode [1, 2, 3, 255])
   \<and> on_message ''c1'' offline_world (Parsed upload_unconvertible_name) =
     finish [Send ''c1'' (error_reply
               (upload_error_prefix @ ''Cannot convert object to primitive value'')
               Undefined (Str ''r11''))] []
   \<and> map mtype (sends (effects (on_message ''c1'' offline_world (Parsed upload_unconvertible_name))))
       = [''error'']"
proof -
  have n: "template offline_world (own (own upload_unconvertible_name ''data'') ''fileName'') =
      Inl (TypeError (NotPrimitive unconvertible))"
    by (simp add: upload_unconvertible_name_def template_def unconvertible_def)
  have d: "\<not> nullish (own upload_unconvertible_name ''data'')"
    by (simp add: upload_unconvertible_name_def)
  have u: "upload_try ''c1'' offline_world upload_unconvertible_name =
      raise [] (TypeError (NotPrimitive unconvertible))"
    using n d by (simp add: upload_try_def Let_def destructure_def)
  have m: "type_error_message offline_world (NotPrimitive unconvertible) =
      ''Cannot convert object to primitive value''"
    by (simp add: offline_world_def)
  have r: "own upload_unconvertible_name ''requestId'' = Str ''r11''"
    by (simp add: upload_unconvertible_name_def)
  have t: "getp upload_unconvertible_name ''type'' = Inr (Str ''rvc-upload-training-data'')"
    by (simp add: upload_unconvertible_name_def getp_def)
  have om: "on_message ''c1'' offline_world (Parsed upload_unconvertible_name) =
     finish [Send ''c1'' (error_reply
               (upload_error_prefix @ ''Cannot convert object to primitive value'')
               Undefined (Str ''r11''))] []"
    using t by (simp add: on_message_def route_def handle_upload_def u m r try_catch_def raise_def
        finish_def)
  have f: "own (own upload_unconvertible_name ''data'') ''fileData'' =
     Str (''data:audio/wav;base64'' @ CHR '','' # b64encode [1, 2, 3, 255])"
    by (simp add: upload_unconvertible_name_def)
  show ?thesis
    by (simp only: om f simp_thms) (simp add: finish_def sends_simps error_reply_def)
qed

section \<open>Shutdown\<close>

lemma shutdown_pairs:
  "length (concat (map (\<lambda>(c, s). [f c, g c]) cs)) = 2 * length cs"
  by (induction cs) auto

lemma shutdown_pairs_nth:
  "i < length cs \<Longrightarrow>
   concat (map (\<lambda>(c, s). [f c, g c]) cs) ! (2 * i) = f (fst (cs ! i))
   \<and> concat (map (\<lambda>(c, s). [f c, g c]) cs) ! (2 * i + 1) = g (fst (cs ! i))"
proof (induction cs arbitrary: i)
  case Nil
  then show ?case by simp
next
  case (Cons x xs)
  show ?case
  proof (cases i)
    case 0
    then show ?thesis by (cases x) simp
  next
    case (Suc k)
    with Cons.prems have "k < length xs" by simp
    from Cons.IH[OF this] Suc show ?thesis by (cases x) simp
  qed
qed

lemma shutdown_differs:
  "shutdown w (a # b # rest) \<noteq> shutdown_as_specified w (a # b # rest)"
  by (cases a; cases b) (simp add: shutdown_def shutdown_as_specified_def)

text \<open>
  Claim C9, as amended. On shutdown the server takes the registered connections in
  registry order and, for each one, sends it the server-shutdown push (which carries no
  \<^verbatim>\<open>requestId\<close>) and closes it at once; after the last connection it stops the WebSocket
  server and the HTTP server, then deletes the upload directory, and exits whatever the
  outcome of the deletion. This is the specified order (all pushes, then all closes)
  exactly when at most one connection is registered.
\<close>

theorem shutdown_order:
  "length (shutdown w clients) = 2 * length clients + 4
   \<and> (\<forall>i < length clients.
         shutdown w clients ! (2 * i) = Send (fst (clients ! i)) shutdown_message
         \<and> shutdown w clients ! (2 * i + 1) = CloseConn (fst (clients ! i)))
   \<and> drop (2 * length clients) (shutdown w clients) =
         [StopWss, StopHttp, RemoveDir ''uploads'' (rm_uploads w), Exit 0]
   \<and> mtype shutdown_message = ''server-shutdown''
   \<and> requestId shutdown_message = Undefined
   \<and> (shutdown w clients = shutdown_as_specified w clients \<longleftrightarrow> length clients \<le> 1)"
proof (intro conjI allI impI)
  let ?pairs = "concat (map (\<lambda>(c, s). [Send c shutdown_message, CloseConn c]) clients)"
  have len: "length ?pairs = 2 * length clients" by (rule shutdown_pairs)
  show "length (shutdown w clients) = 2 * length clients + 4"
    by (simp add: shutdown_def len)
  show "drop (2 * length clients) (shutdown w clients) =
         [StopWss, StopHttp, RemoveDir ''uploads'' (rm_uploads w), Exit 0]"
    by (simp add: shutdown_def len)
  show "mtype shutdown_message = ''server-shutdown''"
    by (simp add: shutdown_message_def reply_def)
  show "requestId shutdown_message = Undefined"
    by (simp add: shutdown_message_def reply_def)
  show "shutdown w clients = shutdown_as_specified w clients \<longleftrightarrow> length clients \<le> 1"
  proof (cases clients)
    case Nil
    then show ?thesis by (simp add: shutdown_def shutdown_as_specified_def)
  next
    case (Cons a as)
    show ?thesis
    proof (cases as)
      case Nil
      with Cons show ?thesis by (cases a) (simp add: shutdown_def shutdown_as_specified_def)
    next
      case (Cons b rest)
      with \<open>clients = a # as\<close> shutdown_differs[of w a b rest] show ?thesis by simp
    qed
  qed
  fix i assume i: "i < length clients"
  have l1: "2 * i < length ?pairs" and l2: "2 * i + 1 < length ?pairs"
    using i len by simp_all
  from shutdown_pairs_nth[OF i, of "\<lambda>c. Send c shutdown_message" CloseConn]
  show "shutdown w clients ! (2 * i) = Send (fst (clients ! i)) shutdown_message"
    using l1 by (simp add: shutdown_def nth_append)
  from shutdown_pairs_nth[OF i, of "\<lambda>c. Send c shutdown_message" CloseConn]
  show "shutdown w clients ! (2 * i + 1) = CloseConn (fst (clients ! i))"
    using l2 by (simp add: shutdown_def nth_append)
qed

theorem shutdown_order_witness:
  "shutdown offline_world [(''a'', 1)] ! 0 = Send ''a'' shutdown_message
   \<and> shutdown offline_world [(''a'', 1)] ! 1 = CloseConn ''a''
   \<and> shutdown offline_world [(''a'', 1)] = shutdown_as_specified offline_world [(''a'', 1)]"
proof -
  have l: "(0::nat) < length [(''a'', 1::nat)]" by simp
  from shutdown_order[of offline_world "[(''a'', 1)]"] l show ?thesis
    by auto
qed

text \<open>
  The claim as it was stated fails with two connections: the first is closed before the
  second is sent the push.
\<close>

theorem shutdown_interleaves:
  "shutdown offline_world [(''a'', 1), (''b'', 1)] =
     [Send ''a'' shutdown_message, CloseConn ''a'', Send ''b'' shutdown_message, CloseConn ''b'',
      StopWss, StopHttp, RemoveDir ''uploads'' None, Exit 0]
   \<and> shutdown_as_specified offline_world [(''a'', 1), (''b'', 1)] =
     [Send ''a'' shutdown_message, Send ''b'' shutdown_message, CloseConn ''a'', CloseConn ''b'',
      StopWss, StopHttp, RemoveDir ''uploads'' None, Exit 0]
   \<and> shutdown offline_world [(''a'', 1), (''b'', 1)] \<noteq>
       shutdown_as_specified offline_world [(''a'', 1), (''b'', 1)]"
  by (simp add: shutdown_def shutdown_as_specified_def offline_world_def)

section \<open>Request ids in replies and pushes\<close>

text \<open>
  Every reply sent while handling a request whose processing does not throw to the
  handler's outer \<^verbatim>\<open>catch\<close> carries that request's \<^verbatim>\<open>requestId\<close> unchanged, and every
  push carries none.
\<close>

lemma echoes_finish1: "requestId m = rid \<Longrightarrow> echoes rid (finish [Send c m] ts)"
  by (simp add: echoes_def finish_def sends_simps)

lemma echoes_raise: "sends es = [] \<Longrightarrow> echoes rid (raise es e)"
  by (simp add: echoes_def raise_def)

lemma echoes_try_catch:
  assumes "echoes rid t" and "\<And>e. echoes rid (h e)"
  shows "echoes rid (try_catch t h)"
  using assms by (auto simp: echoes_def try_catch_def sends_simps split: option.splits)

lemma requestId_reply: "requestId (reply t d rid) = rid"
  by (simp add: reply_def)

lemma requestId_error_reply: "requestId (error_reply t d rid) = rid"
  by (simp add: error_reply_def)

lemma echoes_ping: "echoes (own request ''requestId'') (handle_ping cid w request)"
  by (simp add: handle_ping_def echoes_finish1 requestId_reply)

lemma echoes_unknown: "echoes (own request ''requestId'') (handle_unknown cid w request t)"
  by (cases "template w t")
     (simp_all add: handle_unknown_def echoes_finish1 echoes_raise sends_simps requestId_error_reply)

lemma echoes_speakers: "echoes (own request ''requestId'') (handle_speakers cid w request)"
  unfolding handle_speakers_def Let_def
  by (rule echoes_try_catch)
     (auto simp: echoes_def finish_def raise_def sends_simps requestId_reply split: sum.splits)

lemma echoes_conversion: "echoes (own request ''requestId'') (handle_conversion cid w request)"
  unfolding handle_conversion_def
  by (rule echoes_try_catch)
     (auto simp: conversion_try_def echoes_def finish_def raise_def sends_simps conversion_reply_def
        requestId_reply requestId_error_reply split: option.splits)

lemma echoes_training: "echoes (own request ''requestId'') (handle_training cid w request)"
  unfolding handle_training_def
  by (rule echoes_try_catch)
     (auto simp: training_try_def Let_def echoes_def finish_def raise_def sends_simps started_reply_def
        requestId_reply requestId_error_reply split: option.splits)

lemma echoes_passthrough: "echoes (own request ''requestId'') (handle_passthrough cid w request)"
  unfolding handle_passthrough_def
proof (rule echoes_try_catch)
  from passthrough_try_cases[of cid w request]
  show "echoes (own request ''requestId'') (passthrough_try cid w request)"
    by (auto simp: echoes_def finish_def raise_def sends_simps passthrough_reply_def
        requestId_reply requestId_error_reply)
qed (simp add: echoes_finish1 requestId_error_reply)

lemma upload_try_cases:
  "(\<exists>es e. upload_try cid w request = raise es e \<and> sends es = [])
   \<or> (\<exists>path bytes ts. upload_try cid w request =
          finish [WriteFile path bytes None, Send cid (upload_reply w request path)] ts)"
proof (cases "destructure (own request ''data'') ''fileName''")
  case (Some e)
  then have "upload_try cid w request = raise [] e" by (simp add: upload_try_def Let_def)
  then show ?thesis by (auto simp: sends_simps)
next
  case d: None
  show ?thesis
  proof (cases "template w (own (own request ''data'') ''fileName'')")
    case (Inl e)
    with d have "upload_try cid w request = raise [] e" by (simp add: upload_try_def Let_def)
    then show ?thesis by (auto simp: sends_simps)
  next
    case n: (Inr name)
    show ?thesis
    proof (cases "split_field (own (own request ''data'') ''fileData'')")
      case (Inl e)
      with d n have "upload_try cid w request = raise [] e" by (simp add: upload_try_def Let_def)
      then show ?thesis by (auto simp: sends_simps)
    next
      case s: (Inr pieces)
      show ?thesis
      proof (cases "buffer_from_base64 w (at_index pieces 1)")
        case (Inl e)
        with d n s have "upload_try cid w request = raise [] e" by (simp add: upload_try_def Let_def)
        then show ?thesis by (auto simp: sends_simps)
      next
        case b: (Inr buffer)
        show ?thesis
        proof (cases "writeFile w (upload_path w name) buffer")
          case None
          with d n s b have "upload_try cid w request =
            finish [WriteFile (upload_path w name) buffer None,
                    Send cid (upload_reply w request (upload_path w name))]
                   [Timeout 2000 cid (own (own request ''data'') ''fileName'')]"
            by (simp add: upload_try_def Let_def)
          then show ?thesis by blast
        next
          case (Some m)
          with d n s b have "upload_try cid w request =
            raise [WriteFile (upload_path w name) buffer (Some m)] (IOError m)"
            by (simp add: upload_try_def Let_def)
          then show ?thesis by (auto simp: sends_simps)
        qed
      qed
    qed
  qed
qed

lemma echoes_upload: "echoes (own request ''requestId'') (handle_upload cid w request)"
  unfolding handle_upload_def
proof (rule echoes_try_catch)
  from upload_try_cases[of cid w request]
  show "echoes (own request ''requestId'') (upload_try cid w request)"
    by (auto simp: echoes_def finish_def raise_def sends_simps upload_reply_def requestId_reply)
qed (simp add: echoes_finish1 requestId_error_reply)

lemma echoes_synthesis: "echoes (own request ''requestId'') (handle_synthesis cid w request)"
proof (cases "nullish (own request ''data'')")
  case True
  then show ?thesis by (simp add: synthesis_without_data echoes_raise sends_simps)
next
  case False
  show ?thesis
    unfolding handle_synthesis_def
  proof (rule echoes_try_catch)
    from synthesis_try_cases[OF False, of cid w]
    show "echoes (own request ''requestId'') (synthesis_try cid w request)"
      by (auto simp: echoes_def finish_def raise_def sends_simps synthesis_reply_def requestId_reply)
  qed (simp add: synthesis_catch_with_data[OF False] echoes_finish1 mock_synthesis_reply_def requestId_reply)
qed

lemma replies_echo_requestId:
  assumes "thrown (route cid w (Parsed request)) = None"
    and "m \<in> set (sends (effects (on_message cid w (Parsed request))))"
  shows "requestId m = own request ''requestId''"
proof -
  have "echoes (own request ''requestId'') (route cid w (Parsed request))"
  proof (cases "getp request ''type''")
    case (Inl e)
    with assms(1) show ?thesis by (simp add: route_def raise_def)
  next
    case (Inr t)
    then show ?thesis
      by (simp add: route_def echoes_ping echoes_unknown echoes_speakers echoes_conversion
          echoes_training echoes_passthrough echoes_upload echoes_synthesis)
  qed
  with assms(2) on_message_no_throw[OF assms(1)] show ?thesis
    by (simp add: echoes_def)
qed

lemma pushes_carry_no_requestId:
  "requestId (status_message w) = Undefined"
  "requestId shutdown_message = Undefined"
  "requestId (connected_message c) = Undefined"
  "requestId (progress_message w j x) = Undefined"
  "requestId (complete_message w j) = Undefined"
  "m \<in> set (sends (fire_timeout w cid f)) \<Longrightarrow> requestId m = Undefined"
  "m \<in> set (sends (updateServiceStatus w clients)) \<Longrightarrow> requestId m = Undefined"
  "m \<in> set (sends (shutdown w clients)) \<Longrightarrow> requestId m = Undefined"
  "m \<in> set (sends (fst (tick w j))) \<Longrightarrow> requestId m = Undefined"
  by (auto simp: status_message_def shutdown_message_def connected_message_def progress_message_def
      complete_message_def fire_timeout_def updateServiceStatus_def shutdown_def tick_def Let_def
      requestId_reply sends_def split: if_splits sum.splits)

end
